theory Spec2Isabelle
  imports Main "HOL-Library.Word" "HOL-Library.AList" "HOL-Library.Log_Nat" "HOL-Library.Multiset"
begin

section \<open>The CRI stats provider\<close>

text \<open>
  A shallow embedding of \<^verbatim>\<open>criStatsProvider\<close>
  (\<^verbatim>\<open>pkg/util/pod/stats/cri_stats_provider.go\<close>): the CPU rate cache
  (\<^verbatim>\<open>getContainerUsageNanoCores\<close>, \<^verbatim>\<open>getAndUpdateContainerUsageNanoCores\<close>,
  \<^verbatim>\<open>cleanupOutdatedCaches\<close>), the two dedup filters
  (\<^verbatim>\<open>removeTerminatedPods\<close>, \<^verbatim>\<open>removeTerminatedContainers\<close>) and the two snapshot
  passes (\<^verbatim>\<open>listPodStats\<close>, \<^verbatim>\<open>ListPodCPUAndMemoryStats\<close>).

  Conventions.
  \<^item> A Go pointer that the code tests against \<^verbatim>\<open>nil\<close> or dereferences is an
    \<open>option\<close>; dereferencing \<open>None\<close> is the outcome \<open>Inl NilPointerDereference\<close> of the
    function (a Go run-time panic), so every function that can fault returns a sum.
  \<^item> \<^verbatim>\<open>uint64\<close> and \<^verbatim>\<open>int64\<close> are 64-bit words; an \<^verbatim>\<open>int64\<close> is read with \<open>sint\<close>.
  \<^item> A Go map is an association list with one entry per key (\<open>map_of\<close> looks a key
    up, \<open>AList.update\<close> stores or replaces); Go leaves the iteration order open, the list
    fixes one.
  \<^item> The elements of the slices that the container runtime returns are never \<^verbatim>\<open>nil\<close>.
  \<^item> The clock is read as one instant \<open>now\<close> during a pass.
  \<^item> The mutex only serialises the accesses to the cache; the model is sequential.
  \<^item> Functions and types that the file uses and that other files of the package or
    libraries define are parameters: the fields of the record \<open>helpers\<close> and type
    variables.
\<close>

subsection \<open>Machine integers, time and faults\<close>

type_synonym uint64 = "64 word"
type_synonym int64 = "64 word"

datatype panic = NilPointerDereference

datatype error = Err string | Errorf string error | Wrap error string

text \<open>
  A \<^verbatim>\<open>time.Time\<close> is the number of nanoseconds since the Unix epoch, as an unbounded
  integer; a \<^verbatim>\<open>time.Duration\<close> is an \<^verbatim>\<open>int64\<close> number of nanoseconds, and
  \<^verbatim>\<open>Time.Sub\<close> saturates at the least and the greatest duration.
\<close>

type_synonym Time = int
type_synonym Duration = int

definition time_Unix0 :: "int64 \<Rightarrow> Time" where
  \<comment> \<open>\<^verbatim>\<open>time.Unix(0, nsec)\<close>\<close>
  "time_Unix0 nsec = sint nsec"

definition maxDuration :: Duration where
  "maxDuration = 2 ^ 63 - 1"

definition minDuration :: Duration where
  "minDuration = - (2 ^ 63)"

definition time_Sub :: "Time \<Rightarrow> Time \<Rightarrow> Duration" where
  "time_Sub t u =
     (let d = t - u
      in if d > maxDuration then maxDuration else if d < minDuration then minDuration else d)"

definition time_Since :: "Time \<Rightarrow> Time \<Rightarrow> Duration" where
  \<comment> \<open>\<^verbatim>\<open>time.Since(t)\<close> when the clock reads \<open>now\<close>\<close>
  "time_Since now t = time_Sub now t"

definition Time_zero :: Time where
  \<comment> \<open>the zero \<^verbatim>\<open>time.Time\<close>, January 1 of year 1\<close>
  "Time_zero = - 62135596800 * 1000000000"

definition defaultCachePeriod :: Duration where
  \<comment> \<open>\<^verbatim>\<open>10 * time.Minute\<close>\<close>
  "defaultCachePeriod = 10 * (60 * 1000000000)"

subsection \<open>The float64 arithmetic of the rate\<close>

text \<open>
  The rate is computed as
  \<^verbatim>\<open>uint64(float64(delta) / float64(nanoSeconds) * float64(time.Second/time.Nanosecond))\<close>.
  A finite float64 is modelled by the rational it denotes. Every value of this expression
  is 0 or has a magnitude between \<open>2\<^sup>-\<^sup>6\<^sup>3\<close> and \<open>2\<^sup>9\<^sup>4\<close>, far inside the normal range of
  binary64, so each operation is the exact result rounded to 53 significant bits, to
  nearest, ties to even (\<open>float64_round\<close>); no infinity, NaN or subnormal arises.
\<close>

type_synonym float64 = rat

definition round_to_even :: "rat \<Rightarrow> int" where
  "round_to_even x =
     (let f = \<lfloor>x\<rfloor>; d = x - of_int f
      in if d < 1 / 2 then f else if 1 / 2 < d then f + 1 else if even f then f else f + 1)"

definition float64_exponent :: "rat \<Rightarrow> int" where
  \<comment> \<open>for \<open>0 < x\<close>: the \<open>e\<close> with \<open>2\<^sup>e \<le> x < 2\<^sup>e\<^sup>+\<^sup>1\<close>\<close>
  "float64_exponent x =
     (let k = bitlen (fst (quotient_of x)) - bitlen (snd (quotient_of x))
      in if 2 powi k \<le> x then k else k - 1)"

definition float64_round :: "rat \<Rightarrow> float64" where
  "float64_round x =
     (if x = 0 then 0
      else let ulp = 2 powi (float64_exponent \<bar>x\<bar> - 52)
           in sgn x * (of_int (round_to_even (\<bar>x\<bar> / ulp)) * ulp))"

definition float64_of_uint64 :: "uint64 \<Rightarrow> float64" where
  "float64_of_uint64 w = float64_round (of_int (uint w))"

definition float64_of_int64 :: "int64 \<Rightarrow> float64" where
  "float64_of_int64 w = float64_round (of_int (sint w))"

definition float64_div :: "float64 \<Rightarrow> float64 \<Rightarrow> float64" where
  "float64_div a b = float64_round (a / b)"

definition float64_mul :: "float64 \<Rightarrow> float64 \<Rightarrow> float64" where
  "float64_mul a b = float64_round (a * b)"

text \<open>
  \<^verbatim>\<open>uint64(f)\<close> truncates a float that the type can represent. For any other float the
  language leaves the value to the implementation: it is the parameter \<open>oor\<close> of the model.
\<close>

definition uint64_of_float64 :: "(float64 \<Rightarrow> uint64) \<Rightarrow> float64 \<Rightarrow> uint64" where
  "uint64_of_float64 oor f = (if 0 \<le> f \<and> f < 2 ^ 64 then word_of_int \<lfloor>f\<rfloor> else oor f)"

definition usageNanoCoresOf :: "(float64 \<Rightarrow> uint64) \<Rightarrow> uint64 \<Rightarrow> int64 \<Rightarrow> uint64" where
  \<comment> \<open>the rate expression, for the counter difference \<open>delta\<close> and the interval \<open>nanoSeconds\<close>\<close>
  "usageNanoCoresOf oor delta nanoSeconds =
     uint64_of_float64 oor
       (float64_mul (float64_div (float64_of_uint64 delta) (float64_of_int64 nanoSeconds))
          (float64_round 1000000000))"

subsection \<open>The records of the container runtime\<close>

record CpuUsage =
  Timestamp :: int64
  UsageCoreNanoSeconds :: "uint64 option"

record ContainerMetadata =
  cm_Name :: string

record ContainerAttributes =
  ca_Id :: string
  ca_Metadata :: "ContainerMetadata option"

record MemoryUsage =
  mu_Timestamp :: int64
  mu_WorkingSetBytes :: "uint64 option"

record FilesystemIdentifier =
  Mountpoint :: string

record FilesystemUsage =
  fu_Timestamp :: int64
  FsId :: "FilesystemIdentifier option"
  fu_UsedBytes :: "uint64 option"
  fu_InodesUsed :: "uint64 option"

text \<open>\<^verbatim>\<open>runtimeapi.ContainerStats\<close>, one raw per-container stat record.\<close>

record runtimeapi_ContainerStats =
  Attributes :: "ContainerAttributes option"
  Cpu :: "CpuUsage option"
  Memory :: "MemoryUsage option"
  WritableLayer :: "FilesystemUsage option"

datatype PodSandboxState = SANDBOX_READY | SANDBOX_NOTREADY

datatype ContainerState =
  CONTAINER_CREATED | CONTAINER_RUNNING | CONTAINER_EXITED | CONTAINER_UNKNOWN

record PodSandboxMetadata =
  pm_Name :: string
  pm_Uid :: string
  pm_Namespace :: string

record PodSandbox =
  sb_Id :: string
  sb_Metadata :: "PodSandboxMetadata option"
  sb_State :: PodSandboxState
  sb_CreatedAt :: int64

record Container =
  ct_Id :: string
  ct_PodSandboxId :: string
  ct_State :: ContainerState
  ct_CreatedAt :: int64
  ct_Labels :: "(string \<times> string) list"

subsection \<open>The records of the accounting subsystem (cAdvisor)\<close>

record FsInfo =
  Available :: uint64
  Capacity :: uint64
  fi_InodesFree :: "uint64 option"
  fi_Inodes :: "uint64 option"

record v1_MemoryStats =
  Usage :: uint64
  RSS :: uint64

record v1_ProcessStats =
  v1_ProcessCount :: uint64
  v1_FdCount :: uint64
  v1_SocketCount :: uint64
  v1_ThreadsCurrent :: uint64
  v1_ThreadsMax :: uint64

text \<open>
  The latest \<^verbatim>\<open>cadvisorapiv2.ContainerStats\<close> of a container; \<open>'rd\<close> is
  \<^verbatim>\<open>cadvisorapiv1.DiskIoStats\<close>.
\<close>

record 'rd v2_ContainerStats =
  Processes :: "v1_ProcessStats option"
  v2_DiskIo :: "'rd option"
  v2_Memory :: "v1_MemoryStats option"

subsection \<open>The summary records\<close>

record PodReference =
  Name :: string
  UID :: string
  Namespace :: string

record CPUStats =
  CPU_Time :: Time
  CPU_UsageNanoCores :: "uint64 option"
  CPU_UsageCoreNanoSeconds :: "uint64 option"

record MemoryStats =
  Mem_Time :: Time
  Mem_AvailableBytes :: "uint64 option"
  Mem_UsageBytes :: "uint64 option"
  Mem_WorkingSetBytes :: "uint64 option"
  Mem_RSSBytes :: "uint64 option"
  Mem_PageFaults :: "uint64 option"
  Mem_MajorPageFaults :: "uint64 option"

record FsStats =
  Fs_Time :: Time
  Fs_AvailableBytes :: "uint64 option"
  Fs_CapacityBytes :: "uint64 option"
  Fs_UsedBytes :: "uint64 option"
  Fs_InodesFree :: "uint64 option"
  Fs_Inodes :: "uint64 option"
  Fs_InodesUsed :: "uint64 option"

record ProcessStats =
  ProcessCount :: uint64
  FdCount :: uint64
  SocketCount :: uint64
  ThreadsCurrent :: uint64
  ThreadsMax :: uint64

text \<open>
  \<open>'dio\<close> is a non-nil \<^verbatim>\<open>DiskIoStats\<close> map, \<open>'udm\<close> a non-nil slice of user defined
  metrics, \<open>'net\<close> a \<^verbatim>\<open>NetworkStats\<close>.
\<close>

record ('dio, 'udm) ContainerStats =
  cs_Name :: string
  cs_StartTime :: Time
  cs_CPU :: "CPUStats option"
  cs_Memory :: "MemoryStats option"
  cs_Rootfs :: "FsStats option"
  cs_DiskIo :: "'dio option"
  cs_ProcessStats :: "ProcessStats option"
  cs_UserDefinedMetrics :: "'udm option"

record ('net, 'dio, 'udm) PodStats =
  PodRef :: PodReference
  ps_StartTime :: Time
  Containers :: "('dio, 'udm) ContainerStats list"
  ps_Network :: "'net option"
  ps_CPU :: "CPUStats option"
  ps_Memory :: "MemoryStats option"
  ps_DiskIo :: "'dio option"
  ps_ProcessStats :: "ProcessStats option"

subsection \<open>Helpers and collaborators\<close>

text \<open>
  The helper functions of the package that the file calls and that other files define,
  with the types their call sites give them; \<open>'info\<close> is
  \<^verbatim>\<open>cadvisorapiv2.ContainerInfo\<close>. \<open>HasCustomMetrics\<close> reads
  \<^verbatim>\<open>Spec.HasCustomMetrics\<close>, \<open>DiskIoStats_make\<close> is the empty map,
  \<open>DiskIoStats_Add\<close> the method \<^verbatim>\<open>Add\<close>, and \<open>float64_out_of_range\<close> the value the
  platform gives to \<^verbatim>\<open>uint64(f)\<close> for a float outside the type.
\<close>

record ('info, 'net, 'dio, 'rd, 'udm) helpers =
  buildPodRef :: "(string \<times> string) list \<Rightarrow> PodReference"
  GetContainerName :: "(string \<times> string) list \<Rightarrow> string"
  removeTerminatedContainerInfo :: "(string \<times> 'info) list \<Rightarrow> (string \<times> 'info) list"
  isPodManagedContainer :: "'info \<Rightarrow> bool"
  getCadvisorPodInfoFromPodUID :: "string \<Rightarrow> (string \<times> 'info) list \<Rightarrow> 'info option"
  getLatestContainerStatsById :: "string \<Rightarrow> (string \<times> 'info) list \<Rightarrow> 'rd v2_ContainerStats option"
  cadvisorInfoToNetworkStats :: "'info \<Rightarrow> 'net option"
  cadvisorInfoToCPUandMemoryStats :: "'info \<Rightarrow> CPUStats option \<times> MemoryStats option"
  cadvisorInfoToDiskIoStats :: "'info \<Rightarrow> 'dio option"
  cadvisorInfoToProcessStats :: "'info \<Rightarrow> ProcessStats option"
  cadvisorInfoToUserDefinedMetrics :: "'info \<Rightarrow> 'udm option"
  HasCustomMetrics :: "'info \<Rightarrow> bool"
  convertToDiskIoStats :: "'rd option \<Rightarrow> 'dio option"
  DiskIoStats_make :: 'dio
  DiskIoStats_Add :: "'dio \<Rightarrow> 'dio option \<Rightarrow> 'dio"
  getUint64Value :: "uint64 option \<Rightarrow> uint64"
  float64_out_of_range :: "float64 \<Rightarrow> uint64"

text \<open>
  What the collaborators answer during one pass: the container runtime
  (\<open>ListContainers\<close>, \<open>ListPodSandbox\<close>, \<open>ListContainerStats\<close>), cAdvisor
  (\<open>RootFsInfo\<close>, \<open>GetDirFsInfo\<close>, and \<open>getCadvisorContainerInfo\<close>, which wraps
  \<^verbatim>\<open>ContainerInfoV2\<close>) and the platform's \<open>listContainerNetworkStats\<close>. \<open>Inl\<close> is
  the error of a call.
\<close>

record ('info, 'net) upstream =
  RootFsInfo :: "error + FsInfo"
  ListContainers :: "error + Container list"
  ListPodSandbox :: "error + PodSandbox list"
  ListContainerStats :: "error + runtimeapi_ContainerStats list"
  getCadvisorContainerInfo :: "error + (string \<times> 'info) list"
  listContainerNetworkStats :: "error + (string \<times> 'net option) list"
  GetDirFsInfo :: "string \<Rightarrow> error + FsInfo"

subsection \<open>The rate cache\<close>

record cpuUsageRecord =
  stats :: "CpuUsage option"
  usageNanoCores :: "uint64 option"

text \<open>
  \<^verbatim>\<open>cpuUsageCache map[string]*cpuUsageRecord\<close>: an entry holds a pointer, which may be
  \<^verbatim>\<open>nil\<close>.
\<close>

type_synonym cpuUsageCache = "(string \<times> cpuUsageRecord option) list"

definition getContainerUsageNanoCores ::
  "cpuUsageCache \<Rightarrow> runtimeapi_ContainerStats option \<Rightarrow> panic + uint64 option" where
  "getContainerUsageNanoCores cache st =
     (case st of
        None \<Rightarrow> Inr None
      | Some s \<Rightarrow>
          (case Attributes s of
             None \<Rightarrow> Inr None
           | Some a \<Rightarrow>
               (case map_of cache (ca_Id a) of
                  None \<Rightarrow> Inr None
                | Some None \<Rightarrow> Inl NilPointerDereference
                | Some (Some cached) \<Rightarrow> Inr (usageNanoCores cached))))"

text \<open>
  \<^verbatim>\<open>getAndUpdateContainerUsageNanoCores\<close> returns the new cache and the rate. The error
  of the inner closure (zero or negative interval) is only logged; it is not part of the
  result.
\<close>

definition getAndUpdateContainerUsageNanoCores ::
  "(float64 \<Rightarrow> uint64) \<Rightarrow> cpuUsageCache \<Rightarrow> runtimeapi_ContainerStats option
     \<Rightarrow> panic + cpuUsageCache \<times> uint64 option" where
  "getAndUpdateContainerUsageNanoCores oor cache st =
     (case st of
        None \<Rightarrow> Inr (cache, None)
      | Some s \<Rightarrow>
     (case Attributes s of
        None \<Rightarrow> Inr (cache, None)
      | Some a \<Rightarrow>
     (case Cpu s of
        None \<Rightarrow> Inr (cache, None)
      | Some newStats \<Rightarrow>
     (case UsageCoreNanoSeconds newStats of
        None \<Rightarrow> Inr (cache, None)
      | Some newValue \<Rightarrow>
     (let fresh = AList.update (ca_Id a) (Some \<lparr>stats = Some newStats, usageNanoCores = None\<rparr>) cache
      in case map_of cache (ca_Id a) of
           None \<Rightarrow> Inr (fresh, None)
         | Some None \<Rightarrow> Inl NilPointerDereference
         | Some (Some cached) \<Rightarrow>
             (case stats cached of
                None \<Rightarrow> Inl NilPointerDereference
              | Some cachedStats \<Rightarrow>
                  (case UsageCoreNanoSeconds cachedStats of
                     None \<Rightarrow> Inr (fresh, None)
                   | Some cachedValue \<Rightarrow>
                       if newValue < cachedValue then Inr (fresh, None)
                       else let nanoSeconds = Timestamp newStats - Timestamp cachedStats
                            in if sint nanoSeconds \<le> 0 then Inr (cache, None)
                               else let usage = usageNanoCoresOf oor (newValue - cachedValue) nanoSeconds
                                    in Inr (AList.update (ca_Id a)
                                              (Some \<lparr>stats = Some newStats, usageNanoCores = Some usage\<rparr>)
                                              cache,
                                            Some usage))))))))"

text \<open>
  \<^verbatim>\<open>cleanupOutdatedCaches\<close>, when the clock reads \<open>now\<close>: the loop deletes the entry
  under its hand, so it is a recursion over the entries that keeps or drops each.
\<close>

fun cleanupOutdatedCaches :: "Time \<Rightarrow> cpuUsageCache \<Rightarrow> panic + cpuUsageCache" where
  "cleanupOutdatedCaches now [] = Inr []"
| "cleanupOutdatedCaches now ((k, v) # rest) =
     (case v of
        None \<Rightarrow> cleanupOutdatedCaches now rest
      | Some r \<Rightarrow>
          (case stats r of
             None \<Rightarrow> Inl NilPointerDereference
           | Some s \<Rightarrow>
               (case cleanupOutdatedCaches now rest of
                  Inl p \<Rightarrow> Inl p
                | Inr rest' \<Rightarrow>
                    if time_Since now (time_Unix0 (Timestamp s)) > defaultCachePeriod
                    then Inr rest'
                    else Inr ((k, v) # rest'))))"

subsection \<open>The dedup filters\<close>

text \<open>The nil-safe getters \<^verbatim>\<open>GetMetadata().GetName()\<close> and \<^verbatim>\<open>GetMetadata().GetNamespace()\<close>.\<close>

definition GetName :: "PodSandboxMetadata option \<Rightarrow> string" where
  "GetName m = (case m of None \<Rightarrow> [] | Some md \<Rightarrow> pm_Name md)"

definition GetNamespace :: "PodSandboxMetadata option \<Rightarrow> string" where
  "GetNamespace m = (case m of None \<Rightarrow> [] | Some md \<Rightarrow> pm_Namespace md)"

definition podRefID :: "PodSandbox \<Rightarrow> PodReference" where
  \<comment> \<open>the key \<^verbatim>\<open>refID\<close> of \<^verbatim>\<open>removeTerminatedPods\<close>: the UID is left empty\<close>
  "podRefID pod =
     \<lparr>Name = GetName (sb_Metadata pod), UID = [], Namespace = GetNamespace (sb_Metadata pod)\<rparr>"

text \<open>
  \<^verbatim>\<open>m[k] = append(m[k], v)\<close> on a map of slices, and the map a loop of such
  statements builds: the keys stand in the order of their first element.
\<close>

fun appendTo :: "'k \<Rightarrow> 'v \<Rightarrow> ('k \<times> 'v list) list \<Rightarrow> ('k \<times> 'v list) list" where
  "appendTo k v [] = [(k, [v])]"
| "appendTo k v ((k', vs) # m) =
     (if k = k' then (k', vs @ [v]) # m else (k', vs) # appendTo k v m)"

definition groupBy :: "('v \<Rightarrow> 'k) \<Rightarrow> 'v list \<Rightarrow> ('k \<times> 'v list) list" where
  "groupBy key xs = foldl (\<lambda>m x. appendTo (key x) x m) [] xs"

text \<open>
  The body of the result loop of \<^verbatim>\<open>removeTerminatedPods\<close> for one group \<open>refs\<close>. A
  slice stored in \<^verbatim>\<open>podMap\<close> has at least one element (\<open>groupBy_nonempty\<close> below), so
  the first equation is never reached and \<^verbatim>\<open>refs[len(refs)-1]\<close> is in range.
\<close>

fun selectPods :: "PodSandbox list \<Rightarrow> PodSandbox list" where
  "selectPods [] = []"
| "selectPods [p] = [p]"
| "selectPods refs =
     (let ready = filter (\<lambda>p. sb_State p = SANDBOX_READY) refs
      in if ready \<noteq> [] then ready else [last refs])"

definition removeTerminatedPods_sorted :: "PodSandbox list \<Rightarrow> PodSandbox list" where
  \<comment> \<open>\<^verbatim>\<open>removeTerminatedPods\<close> after its \<^verbatim>\<open>sort.Slice\<close>, on the sorted slice\<close>
  "removeTerminatedPods_sorted pods =
     concat (map (\<lambda>(k, refs). selectPods refs) (groupBy podRefID pods))"

text \<open>
  \<^verbatim>\<open>sort.Slice\<close> is not stable: it may return any permutation ordered by the key.
  \<open>sort_Slice_outcome\<close> says that \<open>ys\<close> is such an outcome for \<open>xs\<close>; the model of a
  whole function sorts with the stable \<open>sort_key\<close>, which is one of them.
\<close>

definition sort_Slice_outcome :: "('a \<Rightarrow> int) \<Rightarrow> 'a list \<Rightarrow> 'a list \<Rightarrow> bool" where
  "sort_Slice_outcome key xs ys \<longleftrightarrow> mset ys = mset xs \<and> sorted (map key ys)"

definition removeTerminatedPods :: "PodSandbox list \<Rightarrow> PodSandbox list" where
  "removeTerminatedPods pods =
     removeTerminatedPods_sorted (sort_key (\<lambda>p. sint (sb_CreatedAt p)) pods)"

record containerID =
  podRef :: PodReference
  containerName :: string

definition containerRefID :: "('info, 'net, 'dio, 'rd, 'udm) helpers \<Rightarrow> Container \<Rightarrow> containerID" where
  \<comment> \<open>the key \<^verbatim>\<open>refID\<close> of \<^verbatim>\<open>removeTerminatedContainers\<close>\<close>
  "containerRefID H container =
     \<lparr>podRef = buildPodRef H (ct_Labels container),
      containerName = GetContainerName H (ct_Labels container)\<rparr>"

definition removeTerminatedContainers_sorted ::
  "('info, 'net, 'dio, 'rd, 'udm) helpers \<Rightarrow> Container list \<Rightarrow> Container list" where
  \<comment> \<open>\<^verbatim>\<open>removeTerminatedContainers\<close> after its \<^verbatim>\<open>sort.Slice\<close>, on the sorted slice\<close>
  "removeTerminatedContainers_sorted H containers =
     concat (map (\<lambda>(k, refs). filter (\<lambda>c. ct_State c = CONTAINER_RUNNING) refs)
               (groupBy (containerRefID H) containers))"

definition removeTerminatedContainers ::
  "('info, 'net, 'dio, 'rd, 'udm) helpers \<Rightarrow> Container list \<Rightarrow> Container list" where
  "removeTerminatedContainers H containers =
     removeTerminatedContainers_sorted H (sort_key (\<lambda>c. sint (ct_CreatedAt c)) containers)"

subsection \<open>Building the stats of one container\<close>

definition convertToProcessStats :: "v1_ProcessStats option \<Rightarrow> ProcessStats option" where
  "convertToProcessStats cStats =
     (case cStats of
        None \<Rightarrow> None
      | Some c \<Rightarrow>
          Some \<lparr>ProcessCount = v1_ProcessCount c, FdCount = v1_FdCount c,
                SocketCount = v1_SocketCount c, ThreadsCurrent = v1_ThreadsCurrent c,
                ThreadsMax = v1_ThreadsMax c\<rparr>)"

definition getFsInfo :: "('info, 'net) upstream \<Rightarrow> FilesystemIdentifier option \<Rightarrow> FsInfo option" where
  \<comment> \<open>an error of \<^verbatim>\<open>GetDirFsInfo\<close> is logged and gives \<^verbatim>\<open>nil\<close>\<close>
  "getFsInfo U fsID =
     (case fsID of
        None \<Rightarrow> None
      | Some f \<Rightarrow> (case GetDirFsInfo U (Mountpoint f) of Inl err \<Rightarrow> None | Inr fsInfo \<Rightarrow> Some fsInfo))"

text \<open>
  \<^verbatim>\<open>makeContainerStats\<close> fills its result block by block. \<open>makeCPUStats\<close> is the block
  on \<^verbatim>\<open>stats.Cpu\<close>, the only one that touches the rate cache: with
  \<open>updateCPUNanoCoreUsage\<close> it calls \<^verbatim>\<open>getAndUpdateContainerUsageNanoCores\<close>, else
  \<^verbatim>\<open>getContainerUsageNanoCores\<close>. \<open>now\<close> is the reading of \<^verbatim>\<open>time.Now()\<close>.
\<close>

definition makeCPUStats ::
  "(float64 \<Rightarrow> uint64) \<Rightarrow> Time \<Rightarrow> bool \<Rightarrow> cpuUsageCache \<Rightarrow> runtimeapi_ContainerStats
     \<Rightarrow> panic + cpuUsageCache \<times> CPUStats" where
  "makeCPUStats oor now updateCPUNanoCoreUsage cache st =
     (case Cpu st of
        None \<Rightarrow>
          Inr (cache, \<lparr>CPU_Time = now, CPU_UsageNanoCores = Some 0, CPU_UsageCoreNanoSeconds = Some 0\<rparr>)
      | Some cpu \<Rightarrow>
          (case (if updateCPUNanoCoreUsage
                 then getAndUpdateContainerUsageNanoCores oor cache (Some st)
                 else (case getContainerUsageNanoCores cache (Some st) of
                         Inl p \<Rightarrow> Inl p
                       | Inr usage \<Rightarrow> Inr (cache, usage))) of
             Inl p \<Rightarrow> Inl p
           | Inr (cache', usage) \<Rightarrow>
               Inr (cache', \<lparr>CPU_Time = time_Unix0 (Timestamp cpu), CPU_UsageNanoCores = usage,
                             CPU_UsageCoreNanoSeconds = UsageCoreNanoSeconds cpu\<rparr>)))"

definition makeMemoryStats ::
  "Time \<Rightarrow> runtimeapi_ContainerStats \<Rightarrow> 'rd v2_ContainerStats option \<Rightarrow> MemoryStats" where
  \<comment> \<open>the block on \<^verbatim>\<open>stats.Memory\<close>\<close>
  "makeMemoryStats now st cStats =
     (let cMemory = (case cStats of None \<Rightarrow> None | Some c \<Rightarrow> v2_Memory c)
      in case Memory st of
           None \<Rightarrow>
             \<lparr>Mem_Time = now, Mem_AvailableBytes = None, Mem_UsageBytes = None,
              Mem_WorkingSetBytes = Some 0, Mem_RSSBytes = None, Mem_PageFaults = None,
              Mem_MajorPageFaults = None\<rparr>
         | Some m \<Rightarrow>
             \<lparr>Mem_Time = time_Unix0 (mu_Timestamp m), Mem_AvailableBytes = None,
              Mem_UsageBytes = map_option Usage cMemory,
              Mem_WorkingSetBytes = mu_WorkingSetBytes m,
              Mem_RSSBytes = map_option RSS cMemory, Mem_PageFaults = None,
              Mem_MajorPageFaults = None\<rparr>)"

type_synonym fsIDtoInfo = "(FilesystemIdentifier \<times> FsInfo option) list"

definition makeRootfsStats ::
  "('info, 'net) upstream \<Rightarrow> fsIDtoInfo \<Rightarrow> runtimeapi_ContainerStats \<Rightarrow> fsIDtoInfo \<times> FsStats" where
  \<comment> \<open>the blocks on \<^verbatim>\<open>stats.WritableLayer\<close> and on its filesystem id\<close>
  "makeRootfsStats U fsIDtoInfo st =
     (let rootfs =
            (case WritableLayer st of
               None \<Rightarrow>
                 \<lparr>Fs_Time = Time_zero, Fs_AvailableBytes = None, Fs_CapacityBytes = None,
                  Fs_UsedBytes = None, Fs_InodesFree = None, Fs_Inodes = None,
                  Fs_InodesUsed = None\<rparr>
             | Some w \<Rightarrow>
                 \<lparr>Fs_Time = time_Unix0 (fu_Timestamp w), Fs_AvailableBytes = None,
                  Fs_CapacityBytes = None, Fs_UsedBytes = fu_UsedBytes w, Fs_InodesFree = None,
                  Fs_Inodes = None, Fs_InodesUsed = fu_InodesUsed w\<rparr>);
          fsID = (case WritableLayer st of None \<Rightarrow> None | Some w \<Rightarrow> FsId w)
      in case fsID of
           None \<Rightarrow> (fsIDtoInfo, rootfs)
         | Some f \<Rightarrow>
             (let (fsIDtoInfo', imageFsInfo) =
                    (case map_of fsIDtoInfo f of
                       Some found \<Rightarrow> (fsIDtoInfo, found)
                     | None \<Rightarrow> (AList.update f (getFsInfo U fsID) fsIDtoInfo, getFsInfo U fsID))
              in (fsIDtoInfo',
                  case imageFsInfo of
                    None \<Rightarrow> rootfs
                  | Some info \<Rightarrow>
                      rootfs\<lparr>Fs_AvailableBytes := Some (Available info),
                             Fs_CapacityBytes := Some (Capacity info),
                             Fs_InodesFree := fi_InodesFree info,
                             Fs_Inodes := fi_Inodes info\<rparr>)))"

text \<open>
  \<^verbatim>\<open>makeContainerStats\<close>. Its parameters \<^verbatim>\<open>rootFsInfo\<close> and \<^verbatim>\<open>meta\<close> are used
  only in code that is commented out; they are left out. It returns the rate cache and the
  filesystem cache \<^verbatim>\<open>fsIDtoInfo\<close> with the stats.
\<close>

definition makeContainerStats ::
  "('info, 'net, 'dio, 'rd, 'udm) helpers \<Rightarrow> ('info, 'net) upstream \<Rightarrow> Time \<Rightarrow> bool
     \<Rightarrow> cpuUsageCache \<Rightarrow> fsIDtoInfo \<Rightarrow> runtimeapi_ContainerStats \<Rightarrow> Container
     \<Rightarrow> (string \<times> 'info) list
     \<Rightarrow> panic + cpuUsageCache \<times> fsIDtoInfo \<times> ('dio, 'udm) ContainerStats" where
  "makeContainerStats H U now updateCPUNanoCoreUsage cache fsIDtoInfo st container infos =
     (case Attributes st of
        None \<Rightarrow> Inl NilPointerDereference
      | Some a \<Rightarrow>
     (case ca_Metadata a of
        None \<Rightarrow> Inl NilPointerDereference
      | Some md \<Rightarrow>
     (let cStats = getLatestContainerStatsById H (ca_Id a) infos
      in case makeCPUStats (float64_out_of_range H) now updateCPUNanoCoreUsage cache st of
           Inl p \<Rightarrow> Inl p
         | Inr (cache', cpu) \<Rightarrow>
             (let (fsIDtoInfo', rootfs) = makeRootfsStats U fsIDtoInfo st
              in Inr (cache', fsIDtoInfo',
                      \<lparr>cs_Name = cm_Name md,
                       cs_StartTime = time_Unix0 (ct_CreatedAt container),
                       cs_CPU = Some cpu,
                       cs_Memory = Some (makeMemoryStats now st cStats),
                       cs_Rootfs = Some rootfs,
                       cs_DiskIo =
                         (case cStats of None \<Rightarrow> None | Some c \<Rightarrow> convertToDiskIoStats H (v2_DiskIo c)),
                       cs_ProcessStats =
                         (case cStats of
                            None \<Rightarrow>
                              Some \<lparr>ProcessCount = 0, FdCount = 0, SocketCount = 0,
                                    ThreadsCurrent = 0, ThreadsMax = 0\<rparr>
                          | Some c \<Rightarrow> convertToProcessStats (Processes c)),
                       cs_UserDefinedMetrics = None\<rparr>)))))"

text \<open>
  \<^verbatim>\<open>makeContainerCPUAndMemoryStats\<close>: no root filesystem, and the rate is only read
  from the cache.
\<close>

definition makeContainerCPUAndMemoryStats ::
  "('info, 'net, 'dio, 'rd, 'udm) helpers \<Rightarrow> Time \<Rightarrow> cpuUsageCache \<Rightarrow> runtimeapi_ContainerStats
     \<Rightarrow> Container \<Rightarrow> (string \<times> 'info) list \<Rightarrow> panic + ('dio, 'udm) ContainerStats" where
  "makeContainerCPUAndMemoryStats H now cache st container infos =
     (case Attributes st of
        None \<Rightarrow> Inl NilPointerDereference
      | Some a \<Rightarrow>
     (case ca_Metadata a of
        None \<Rightarrow> Inl NilPointerDereference
      | Some md \<Rightarrow>
     (let cStats = getLatestContainerStatsById H (ca_Id a) infos
      in case makeCPUStats (float64_out_of_range H) now False cache st of
           Inl p \<Rightarrow> Inl p
         | Inr (cache', cpu) \<Rightarrow>
             Inr \<lparr>cs_Name = cm_Name md,
                  cs_StartTime = time_Unix0 (ct_CreatedAt container),
                  cs_CPU = Some cpu,
                  cs_Memory = Some (makeMemoryStats now st cStats),
                  cs_Rootfs = None,
                  cs_DiskIo =
                    (case cStats of None \<Rightarrow> None | Some c \<Rightarrow> convertToDiskIoStats H (v2_DiskIo c)),
                  cs_ProcessStats =
                    (case cStats of
                       None \<Rightarrow>
                         Some \<lparr>ProcessCount = 0, FdCount = 0, SocketCount = 0,
                               ThreadsCurrent = 0, ThreadsMax = 0\<rparr>
                     | Some c \<Rightarrow> convertToProcessStats (Processes c)),
                  cs_UserDefinedMetrics = None\<rparr>)))"

subsection \<open>Folding the stats of a container into its pod\<close>

definition buildPodStats :: "PodSandbox \<Rightarrow> panic + ('net, 'dio, 'udm) PodStats" where
  "buildPodStats podSandbox =
     (case sb_Metadata podSandbox of
        None \<Rightarrow> Inl NilPointerDereference
      | Some md \<Rightarrow>
          Inr \<lparr>PodRef = \<lparr>Name = pm_Name md, UID = pm_Uid md, Namespace = pm_Namespace md\<rparr>,
               ps_StartTime = time_Unix0 (sb_CreatedAt podSandbox),
               Containers = [], ps_Network = None, ps_CPU = None, ps_Memory = None,
               ps_DiskIo = None, ps_ProcessStats = None\<rparr>)"

definition addPodNetworkStats ::
  "('info, 'net, 'dio, 'rd, 'udm) helpers \<Rightarrow> ('net, 'dio, 'udm) PodStats \<Rightarrow> string
     \<Rightarrow> (string \<times> 'info) list \<Rightarrow> ('dio, 'udm) ContainerStats \<Rightarrow> 'net option
     \<Rightarrow> ('net, 'dio, 'udm) PodStats" where
  "addPodNetworkStats H ps podSandboxID caInfos cs netStats =
     (case (case map_of caInfos podSandboxID of
              None \<Rightarrow> None
            | Some caPodSandbox \<Rightarrow> cadvisorInfoToNetworkStats H caPodSandbox) of
        Some networkStats \<Rightarrow> ps\<lparr>ps_Network := Some networkStats\<rparr>
      | None \<Rightarrow> (case netStats of Some n \<Rightarrow> ps\<lparr>ps_Network := Some n\<rparr> | None \<Rightarrow> ps))"

definition addPodCPUMemoryStats ::
  "('info, 'net, 'dio, 'rd, 'udm) helpers \<Rightarrow> ('net, 'dio, 'udm) PodStats \<Rightarrow> string
     \<Rightarrow> (string \<times> 'info) list \<Rightarrow> ('dio, 'udm) ContainerStats \<Rightarrow> ('net, 'dio, 'udm) PodStats" where
  "addPodCPUMemoryStats H ps podUID allInfos cs =
     (case getCadvisorPodInfoFromPodUID H podUID allInfos of
        Some podCgroupInfo \<Rightarrow>
          ps\<lparr>ps_CPU := fst (cadvisorInfoToCPUandMemoryStats H podCgroupInfo),
             ps_Memory := snd (cadvisorInfoToCPUandMemoryStats H podCgroupInfo)\<rparr>
      | None \<Rightarrow>
          (let g = getUint64Value H;
               ps1 =
                 (case cs_CPU cs of
                    None \<Rightarrow> ps
                  | Some c \<Rightarrow>
                      (let pc = (case ps_CPU ps of
                                   None \<Rightarrow> \<lparr>CPU_Time = Time_zero, CPU_UsageNanoCores = None,
                                             CPU_UsageCoreNanoSeconds = None\<rparr>
                                 | Some x \<Rightarrow> x)
                       in ps\<lparr>ps_CPU := Some
                              \<lparr>CPU_Time = CPU_Time c,
                               CPU_UsageNanoCores =
                                 Some (g (CPU_UsageNanoCores c) + g (CPU_UsageNanoCores pc)),
                               CPU_UsageCoreNanoSeconds =
                                 Some (g (CPU_UsageCoreNanoSeconds c) + g (CPU_UsageCoreNanoSeconds pc))\<rparr>\<rparr>))
           in case cs_Memory cs of
                None \<Rightarrow> ps1
              | Some m \<Rightarrow>
                  (let pm = (case ps_Memory ps1 of
                               None \<Rightarrow> \<lparr>Mem_Time = Time_zero, Mem_AvailableBytes = None,
                                         Mem_UsageBytes = None, Mem_WorkingSetBytes = None,
                                         Mem_RSSBytes = None, Mem_PageFaults = None,
                                         Mem_MajorPageFaults = None\<rparr>
                             | Some x \<Rightarrow> x)
                   in ps1\<lparr>ps_Memory := Some
                           \<lparr>Mem_Time = Mem_Time m,
                            Mem_AvailableBytes = Some (g (Mem_AvailableBytes m) + g (Mem_AvailableBytes pm)),
                            Mem_UsageBytes = Some (g (Mem_UsageBytes m) + g (Mem_UsageBytes pm)),
                            Mem_WorkingSetBytes = Some (g (Mem_WorkingSetBytes m) + g (Mem_WorkingSetBytes pm)),
                            Mem_RSSBytes = Some (g (Mem_RSSBytes m) + g (Mem_RSSBytes pm)),
                            Mem_PageFaults = Some (g (Mem_PageFaults m) + g (Mem_PageFaults pm)),
                            Mem_MajorPageFaults =
                              Some (g (Mem_MajorPageFaults m) + g (Mem_MajorPageFaults pm))\<rparr>\<rparr>)))"

definition addDiskIoStats ::
  "('info, 'net, 'dio, 'rd, 'udm) helpers \<Rightarrow> ('net, 'dio, 'udm) PodStats \<Rightarrow> string
     \<Rightarrow> (string \<times> 'info) list \<Rightarrow> ('dio, 'udm) ContainerStats \<Rightarrow> ('net, 'dio, 'udm) PodStats" where
  "addDiskIoStats H ps podUID allInfos cs =
     (let d1 = (case getCadvisorPodInfoFromPodUID H podUID allInfos of
                  Some info \<Rightarrow> cadvisorInfoToDiskIoStats H info
                | None \<Rightarrow> ps_DiskIo ps);
          d2 = (case d1 of None \<Rightarrow> DiskIoStats_make H | Some d \<Rightarrow> d)
      in ps\<lparr>ps_DiskIo := Some (DiskIoStats_Add H d2 (cs_DiskIo cs))\<rparr>)"

definition addProcessStats ::
  "('info, 'net, 'dio, 'rd, 'udm) helpers \<Rightarrow> ('net, 'dio, 'udm) PodStats \<Rightarrow> string
     \<Rightarrow> (string \<times> 'info) list \<Rightarrow> ('dio, 'udm) ContainerStats \<Rightarrow> ('net, 'dio, 'udm) PodStats" where
  "addProcessStats H ps podUID allInfos cs =
     (let p1 = (case getCadvisorPodInfoFromPodUID H podUID allInfos of
                  Some info \<Rightarrow> cadvisorInfoToProcessStats H info
                | None \<Rightarrow> ps_ProcessStats ps)
      in case cs_ProcessStats cs of
           None \<Rightarrow> ps\<lparr>ps_ProcessStats := p1\<rparr>
         | Some c \<Rightarrow>
             (let pp = (case p1 of
                          None \<Rightarrow> \<lparr>ProcessCount = 0, FdCount = 0, SocketCount = 0,
                                    ThreadsCurrent = 0, ThreadsMax = 0\<rparr>
                        | Some x \<Rightarrow> x)
              in ps\<lparr>ps_ProcessStats := Some
                      \<lparr>ProcessCount = ProcessCount pp + ProcessCount c,
                       FdCount = FdCount pp + FdCount c,
                       SocketCount = SocketCount pp + SocketCount c,
                       ThreadsCurrent = ThreadsCurrent pp + ThreadsCurrent c,
                       ThreadsMax = ThreadsMax pp + ThreadsMax c\<rparr>\<rparr>))"

definition addCadvisorContainerStats ::
  "('info, 'net, 'dio, 'rd, 'udm) helpers \<Rightarrow> ('dio, 'udm) ContainerStats \<Rightarrow> 'info
     \<Rightarrow> ('dio, 'udm) ContainerStats" where
  "addCadvisorContainerStats H cs caPodStats =
     (let cs1 = (if HasCustomMetrics H caPodStats
                 then cs\<lparr>cs_UserDefinedMetrics := cadvisorInfoToUserDefinedMetrics H caPodStats\<rparr>
                 else cs);
          cpu = fst (cadvisorInfoToCPUandMemoryStats H caPodStats);
          memory = snd (cadvisorInfoToCPUandMemoryStats H caPodStats);
          cs2 = (case cpu of None \<Rightarrow> cs1 | Some c \<Rightarrow> cs1\<lparr>cs_CPU := Some c\<rparr>)
      in case memory of None \<Rightarrow> cs2 | Some m \<Rightarrow> cs2\<lparr>cs_Memory := Some m\<rparr>)"

text \<open>\<^verbatim>\<open>strings.HasSuffix\<close> and \<^verbatim>\<open>path.Base\<close> of the Go library.\<close>

definition HasSuffix :: "string \<Rightarrow> string \<Rightarrow> bool" where
  "HasSuffix s suffix \<longleftrightarrow>
     length suffix \<le> length s \<and> drop (length s - length suffix) s = suffix"

definition path_Base :: "string \<Rightarrow> string" where
  "path_Base path =
     (if path = [] then ''.''
      else let stripped = rev (dropWhile (\<lambda>c. c = CHR ''/'') (rev path));
               base = rev (takeWhile (\<lambda>c. c \<noteq> CHR ''/'') (rev stripped))
           in if base = [] then ''/'' else base)"

definition getCRICadvisorStats ::
  "('info, 'net, 'dio, 'rd, 'udm) helpers \<Rightarrow> (string \<times> 'info) list \<Rightarrow> (string \<times> 'info) list" where
  "getCRICadvisorStats H infos =
     foldl (\<lambda>stats (key, info).
              if HasSuffix key ''.mount'' then stats
              else if \<not> isPodManagedContainer H info then stats
              else AList.update (path_Base key) info stats)
       [] (removeTerminatedContainerInfo H infos)"

subsection \<open>The snapshot passes\<close>

text \<open>A \<^verbatim>\<open>for\<close> loop over a slice whose body may fault: the first fault ends it.\<close>

fun forEach :: "('s \<Rightarrow> 'a \<Rightarrow> panic + 's) \<Rightarrow> 's \<Rightarrow> 'a list \<Rightarrow> panic + 's" where
  "forEach body s [] = Inr s"
| "forEach body s (x # xs) =
     (case body s x of Inl p \<Rightarrow> Inl p | Inr s' \<Rightarrow> forEach body s' xs)"

definition podSandboxMapOf :: "PodSandbox list \<Rightarrow> (string \<times> PodSandbox) list" where
  \<comment> \<open>\<^verbatim>\<open>for _, s := range podSandboxes { podSandboxMap[s.Id] = s }\<close>\<close>
  "podSandboxMapOf podSandboxes = foldl (\<lambda>m s. AList.update (sb_Id s) s m) [] podSandboxes"

definition containerMapOf :: "Container list \<Rightarrow> (string \<times> Container) list" where
  \<comment> \<open>\<^verbatim>\<open>for _, c := range containers { containerMap[c.Id] = c }\<close>\<close>
  "containerMapOf containers = foldl (\<lambda>m c. AList.update (ct_Id c) c m) [] containers"

text \<open>
  The state of the loop of \<^verbatim>\<open>listPodStats\<close> over the stat records: the rate cache,
  \<^verbatim>\<open>fsIDtoInfo\<close> and \<^verbatim>\<open>sandboxIDToPodStats\<close>. \<open>listPodStats_body\<close> is the body of
  the loop for the record \<open>st\<close>; the two \<^verbatim>\<open>continue\<close> statements return the state as
  it is.
\<close>

definition listPodStats_body ::
  "('info, 'net, 'dio, 'rd, 'udm) helpers \<Rightarrow> ('info, 'net) upstream \<Rightarrow> Time \<Rightarrow> bool
     \<Rightarrow> (string \<times> Container) list \<Rightarrow> (string \<times> PodSandbox) list \<Rightarrow> (string \<times> 'info) list
     \<Rightarrow> (string \<times> 'info) list \<Rightarrow> (string \<times> 'net option) list
     \<Rightarrow> cpuUsageCache \<times> fsIDtoInfo \<times> (string \<times> ('net, 'dio, 'udm) PodStats) list
     \<Rightarrow> runtimeapi_ContainerStats
     \<Rightarrow> panic + cpuUsageCache \<times> fsIDtoInfo \<times> (string \<times> ('net, 'dio, 'udm) PodStats) list" where
  "listPodStats_body H U now updateCPUNanoCoreUsage containerMap podSandboxMap allInfos caInfos
       containerNetworkStats state st =
     (case state of (cache, fsIDtoInfo, sandboxIDToPodStats) \<Rightarrow>
     (case Attributes st of
        None \<Rightarrow> Inl NilPointerDereference
      | Some a \<Rightarrow>
     (case map_of containerMap (ca_Id a) of
        None \<Rightarrow> Inr state
      | Some container \<Rightarrow>
     (case map_of podSandboxMap (ct_PodSandboxId container) of
        None \<Rightarrow> Inr state
      | Some podSandbox \<Rightarrow>
     (case (case map_of sandboxIDToPodStats (ct_PodSandboxId container) of
              Some found \<Rightarrow> Inr found
            | None \<Rightarrow> buildPodStats podSandbox) of
        Inl p \<Rightarrow> Inl p
      | Inr ps \<Rightarrow>
     (case makeContainerStats H U now updateCPUNanoCoreUsage cache fsIDtoInfo st container allInfos of
        Inl p \<Rightarrow> Inl p
      | Inr (cache', fsIDtoInfo', cs) \<Rightarrow>
     (case sb_Metadata podSandbox of
        None \<Rightarrow> Inl NilPointerDereference
      | Some md \<Rightarrow>
     (let podSandboxID = ct_PodSandboxId container;
          ps1 = addPodNetworkStats H ps podSandboxID caInfos cs
                  (case map_of containerNetworkStats podSandboxID of None \<Rightarrow> None | Some n \<Rightarrow> n);
          ps2 = addPodCPUMemoryStats H ps1 (pm_Uid md) allInfos cs;
          ps3 = addDiskIoStats H ps2 podSandboxID allInfos cs;
          ps4 = addProcessStats H ps3 podSandboxID allInfos cs;
          cs' = (case map_of caInfos (ca_Id a) of
                   None \<Rightarrow> cs
                 | Some caStats \<Rightarrow> addCadvisorContainerStats H cs caStats);
          ps5 = ps4\<lparr>Containers := Containers ps4 @ [cs']\<rparr>
      in Inr (cache', fsIDtoInfo', AList.update podSandboxID ps5 sandboxIDToPodStats)))))))))"

text \<open>
  \<^verbatim>\<open>listPodStats\<close>. The result is the new rate cache with the pair the Go function
  returns: the slice (\<open>None\<close> is \<^verbatim>\<open>nil\<close>) and the error (\<open>None\<close> is \<^verbatim>\<open>nil\<close>). The
  slice lists the values of \<^verbatim>\<open>sandboxIDToPodStats\<close>, here in the order in which the
  pods were first met; Go leaves the order open.
\<close>

definition listPodStats ::
  "('info, 'net, 'dio, 'rd, 'udm) helpers \<Rightarrow> ('info, 'net) upstream \<Rightarrow> Time \<Rightarrow> bool
     \<Rightarrow> cpuUsageCache
     \<Rightarrow> panic + cpuUsageCache \<times> ('net, 'dio, 'udm) PodStats list option \<times> error option" where
  "listPodStats H U now updateCPUNanoCoreUsage cache =
     (case RootFsInfo U of
        Inl err \<Rightarrow> Inr (cache, None, Some (Errorf ''failed to get rootFs info: %v'' err))
      | Inr rootFsInfo \<Rightarrow>
     (case ListContainers U of
        Inl err \<Rightarrow> Inr (cache, None, Some (Wrap err ''failed to list all containers''))
      | Inr containers \<Rightarrow>
     (case ListPodSandbox U of
        Inl err \<Rightarrow> Inr (cache, None, Some (Wrap err ''failed to list all pod sandboxes''))
      | Inr items \<Rightarrow>
     (case ListContainerStats U of
        Inl err \<Rightarrow> Inr (cache, None, Some (Errorf ''failed to list all container stats: %v'' err))
      | Inr cstsResp \<Rightarrow>
     (case getCadvisorContainerInfo U of
        Inl err \<Rightarrow> Inr (cache, None, Some (Errorf ''failed to fetch cadvisor stats: %v'' err))
      | Inr allInfos \<Rightarrow>
     (case listContainerNetworkStats U of
        Inl err \<Rightarrow> Inr (cache, None, Some (Errorf ''failed to list container network stats: %v'' err))
      | Inr containerNetworkStats \<Rightarrow>
     (case forEach
             (listPodStats_body H U now updateCPUNanoCoreUsage
                (containerMapOf (removeTerminatedContainers H containers))
                (podSandboxMapOf (removeTerminatedPods items))
                allInfos (getCRICadvisorStats H allInfos) containerNetworkStats)
             (cache, [], []) cstsResp of
        Inl p \<Rightarrow> Inl p
      | Inr (cache1, fsIDtoInfo, sandboxIDToPodStats) \<Rightarrow>
     (case cleanupOutdatedCaches now cache1 of
        Inl p \<Rightarrow> Inl p
      | Inr cache2 \<Rightarrow> Inr (cache2, Some (map snd sandboxIDToPodStats), None)))))))))"

definition ListPodStats ::
  "('info, 'net, 'dio, 'rd, 'udm) helpers \<Rightarrow> ('info, 'net) upstream \<Rightarrow> Time \<Rightarrow> cpuUsageCache
     \<Rightarrow> panic + cpuUsageCache \<times> ('net, 'dio, 'udm) PodStats list option \<times> error option" where
  "ListPodStats H U now cache = listPodStats H U now False cache"

definition ListPodStatsAndUpdateCPUNanoCoreUsage ::
  "('info, 'net, 'dio, 'rd, 'udm) helpers \<Rightarrow> ('info, 'net) upstream \<Rightarrow> Time \<Rightarrow> cpuUsageCache
     \<Rightarrow> panic + cpuUsageCache \<times> ('net, 'dio, 'udm) PodStats list option \<times> error option" where
  "ListPodStatsAndUpdateCPUNanoCoreUsage H U now cache = listPodStats H U now True cache"

text \<open>
  \<^verbatim>\<open>ListPodCPUAndMemoryStats\<close>: the same pass without the root filesystem, the network
  stats and \<^verbatim>\<open>fsIDtoInfo\<close>. Its loop only reads the rate cache, so the state of the
  loop is \<^verbatim>\<open>sandboxIDToPodStats\<close>.
\<close>

definition ListPodCPUAndMemoryStats_body ::
  "('info, 'net, 'dio, 'rd, 'udm) helpers \<Rightarrow> Time \<Rightarrow> cpuUsageCache
     \<Rightarrow> (string \<times> Container) list \<Rightarrow> (string \<times> PodSandbox) list \<Rightarrow> (string \<times> 'info) list
     \<Rightarrow> (string \<times> 'info) list
     \<Rightarrow> (string \<times> ('net, 'dio, 'udm) PodStats) list
     \<Rightarrow> runtimeapi_ContainerStats
     \<Rightarrow> panic + (string \<times> ('net, 'dio, 'udm) PodStats) list" where
  "ListPodCPUAndMemoryStats_body H now cache containerMap podSandboxMap allInfos caInfos
       sandboxIDToPodStats st =
     (case Attributes st of
        None \<Rightarrow> Inl NilPointerDereference
      | Some a \<Rightarrow>
     (case map_of containerMap (ca_Id a) of
        None \<Rightarrow> Inr sandboxIDToPodStats
      | Some container \<Rightarrow>
     (case map_of podSandboxMap (ct_PodSandboxId container) of
        None \<Rightarrow> Inr sandboxIDToPodStats
      | Some podSandbox \<Rightarrow>
     (case (case map_of sandboxIDToPodStats (ct_PodSandboxId container) of
              Some found \<Rightarrow> Inr found
            | None \<Rightarrow> buildPodStats podSandbox) of
        Inl p \<Rightarrow> Inl p
      | Inr ps \<Rightarrow>
     (case makeContainerCPUAndMemoryStats H now cache st container allInfos of
        Inl p \<Rightarrow> Inl p
      | Inr cs \<Rightarrow>
     (case sb_Metadata podSandbox of
        None \<Rightarrow> Inl NilPointerDereference
      | Some md \<Rightarrow>
     (let podSandboxID = ct_PodSandboxId container;
          ps2 = addPodCPUMemoryStats H ps (pm_Uid md) allInfos cs;
          ps3 = addDiskIoStats H ps2 podSandboxID allInfos cs;
          ps4 = addProcessStats H ps3 podSandboxID allInfos cs;
          cs' = (case map_of caInfos (ca_Id a) of
                   None \<Rightarrow> cs
                 | Some caStats \<Rightarrow> addCadvisorContainerStats H cs caStats);
          ps5 = ps4\<lparr>Containers := Containers ps4 @ [cs']\<rparr>
      in Inr (AList.update podSandboxID ps5 sandboxIDToPodStats))))))))"

definition ListPodCPUAndMemoryStats ::
  "('info, 'net, 'dio, 'rd, 'udm) helpers \<Rightarrow> ('info, 'net) upstream \<Rightarrow> Time \<Rightarrow> cpuUsageCache
     \<Rightarrow> panic + cpuUsageCache \<times> ('net, 'dio, 'udm) PodStats list option \<times> error option" where
  "ListPodCPUAndMemoryStats H U now cache =
     (case ListContainers U of
        Inl err \<Rightarrow> Inr (cache, None, Some (Errorf ''failed to list all containers: %v'' err))
      | Inr containers \<Rightarrow>
     (case ListPodSandbox U of
        Inl err \<Rightarrow> Inr (cache, None, Some (Errorf ''failed to list all pod sandboxes: %v'' err))
      | Inr items \<Rightarrow>
     (case ListContainerStats U of
        Inl err \<Rightarrow> Inr (cache, None, Some (Errorf ''failed to list all container stats: %v'' err))
      | Inr containerStatResp \<Rightarrow>
     (case getCadvisorContainerInfo U of
        Inl err \<Rightarrow> Inr (cache, None, Some (Errorf ''failed to fetch cadvisor stats: %v'' err))
      | Inr allInfos \<Rightarrow>
     (case forEach
             (ListPodCPUAndMemoryStats_body H now cache
                (containerMapOf (removeTerminatedContainers H containers))
                (podSandboxMapOf (removeTerminatedPods items))
                allInfos (getCRICadvisorStats H allInfos))
             [] containerStatResp of
        Inl p \<Rightarrow> Inl p
      | Inr sandboxIDToPodStats \<Rightarrow>
     (case cleanupOutdatedCaches now cache of
        Inl p \<Rightarrow> Inl p
      | Inr cache2 \<Rightarrow> Inr (cache2, Some (map snd sandboxIDToPodStats), None)))))))"

subsection \<open>Notions of the statements\<close>

text \<open>The exact nanocore rate of a counter difference \<open>dns\<close> over \<open>dt\<close> nanoseconds.\<close>

definition exactRate :: "int \<Rightarrow> int \<Rightarrow> rat" where
  "exactRate dns dt = of_int dns * 1000000000 / of_int dt"

text \<open>
  An entry that the sweep keeps when the clock reads \<open>now\<close>: its record and the sample in it
  are there, and the sample is at most ten minutes old.
\<close>

definition retained :: "Time \<Rightarrow> cpuUsageRecord option \<Rightarrow> bool" where
  "retained now v =
     (case v of
        None \<Rightarrow> False
      | Some r \<Rightarrow>
          (case stats r of
             None \<Rightarrow> False
           | Some s \<Rightarrow> now - sint (Timestamp s) \<le> 600000000000))"

text \<open>
  A cache entry as the update path writes it: a record with a sample. \<open>cache_wf\<close> asks it of
  every entry, \<open>stats_wf\<close> of every entry whose record is not \<^verbatim>\<open>nil\<close>.
\<close>

definition record_wf :: "cpuUsageRecord option \<Rightarrow> bool" where
  "record_wf v = (case v of None \<Rightarrow> False | Some r \<Rightarrow> stats r \<noteq> None)"

definition cache_wf :: "cpuUsageCache \<Rightarrow> bool" where
  "cache_wf cache = list_all (\<lambda>e. record_wf (snd e)) cache"

definition stats_wf :: "cpuUsageCache \<Rightarrow> bool" where
  "stats_wf cache = list_all (\<lambda>e. snd e = None \<or> record_wf (snd e)) cache"

text \<open>
  The caches a provider can hold: \<^verbatim>\<open>newCRIStatsProvider\<close> makes the empty map, and only
  \<^verbatim>\<open>getAndUpdateContainerUsageNanoCores\<close> and \<^verbatim>\<open>cleanupOutdatedCaches\<close> write to it.
\<close>

inductive populated :: "(float64 \<Rightarrow> uint64) \<Rightarrow> cpuUsageCache \<Rightarrow> bool" for oor where
  created: "populated oor []"
| updated: "populated oor cache \<Longrightarrow>
     getAndUpdateContainerUsageNanoCores oor cache st = Inr (cache', usage) \<Longrightarrow> populated oor cache'"
| swept: "populated oor cache \<Longrightarrow> cleanupOutdatedCaches now cache = Inr cache' \<Longrightarrow>
     populated oor cache'"

text \<open>
  The errors of the fetches of a pass, in the order of the calls, and an error that wraps
  another (\<^verbatim>\<open>fmt.Errorf\<close> with the error as its argument, or \<^verbatim>\<open>errors.Wrap\<close>).
\<close>

definition failed :: "error + 'a \<Rightarrow> error list" where
  "failed r = (case r of Inl err \<Rightarrow> [err] | Inr v \<Rightarrow> [])"

definition listPodStats_fetchErrors :: "('info, 'net) upstream \<Rightarrow> error list" where
  "listPodStats_fetchErrors U =
     failed (RootFsInfo U) @ failed (ListContainers U) @ failed (ListPodSandbox U) @
     failed (ListContainerStats U) @ failed (getCadvisorContainerInfo U) @
     failed (listContainerNetworkStats U)"

definition ListPodCPUAndMemoryStats_fetchErrors :: "('info, 'net) upstream \<Rightarrow> error list" where
  "ListPodCPUAndMemoryStats_fetchErrors U =
     failed (ListContainers U) @ failed (ListPodSandbox U) @
     failed (ListContainerStats U) @ failed (getCadvisorContainerInfo U)"

definition wraps :: "error \<Rightarrow> error \<Rightarrow> bool" where
  "wraps e err = (case e of Errorf msg inner \<Rightarrow> inner = err | Wrap inner msg \<Rightarrow> inner = err | Err msg \<Rightarrow> False)"

text \<open>
  A stat record that names a container, and whose container is not in the container map or
  whose container's sandbox is not in the sandbox map.
\<close>

definition unresolved ::
  "(string \<times> Container) list \<Rightarrow> (string \<times> PodSandbox) list \<Rightarrow> runtimeapi_ContainerStats \<Rightarrow> bool" where
  "unresolved containerMap podSandboxMap st =
     (case Attributes st of
        None \<Rightarrow> False
      | Some a \<Rightarrow>
          (case map_of containerMap (ca_Id a) of
             None \<Rightarrow> True
           | Some container \<Rightarrow> map_of podSandboxMap (ct_PodSandboxId container) = None))"

subsection \<open>Concrete inputs\<close>

definition sampleOf :: "string \<Rightarrow> int64 \<Rightarrow> uint64 \<Rightarrow> runtimeapi_ContainerStats" where
  "sampleOf i t v =
     \<lparr>Attributes = Some \<lparr>ca_Id = i, ca_Metadata = Some \<lparr>cm_Name = i\<rparr>\<rparr>,
      Cpu = Some \<lparr>Timestamp = t, UsageCoreNanoSeconds = Some v\<rparr>,
      Memory = None, WritableLayer = None\<rparr>"

definition cachedOf :: "int64 \<Rightarrow> uint64 \<Rightarrow> uint64 option \<Rightarrow> cpuUsageRecord option" where
  "cachedOf t v rate =
     Some \<lparr>stats = Some \<lparr>Timestamp = t, UsageCoreNanoSeconds = Some v\<rparr>, usageNanoCores = rate\<rparr>"

definition sandboxOf :: "string \<Rightarrow> string \<Rightarrow> PodSandboxState \<Rightarrow> int64 \<Rightarrow> PodSandbox" where
  "sandboxOf i n st t =
     \<lparr>sb_Id = i, sb_Metadata = Some \<lparr>pm_Name = n, pm_Uid = i, pm_Namespace = ''default''\<rparr>,
      sb_State = st, sb_CreatedAt = t\<rparr>"

definition containerOf :: "string \<Rightarrow> string \<Rightarrow> ContainerState \<Rightarrow> int64 \<Rightarrow> Container" where
  "containerOf i n st t =
     \<lparr>ct_Id = i, ct_PodSandboxId = ''s1'', ct_State = st, ct_CreatedAt = t,
      ct_Labels = [(''io.kubernetes.pod.name'', ''web''),
                   (''io.kubernetes.pod.namespace'', ''default''),
                   (''io.kubernetes.container.name'', n)]\<rparr>"

definition labelOf :: "string \<Rightarrow> (string \<times> string) list \<Rightarrow> string" where
  "labelOf key labels = (case map_of labels key of None \<Rightarrow> [] | Some v \<Rightarrow> v)"

definition exampleHelpers :: "(unit, unit, unit, unit, unit) helpers" where
  "exampleHelpers =
     \<lparr>buildPodRef = (\<lambda>labels. \<lparr>Name = labelOf ''io.kubernetes.pod.name'' labels, UID = [],
                                Namespace = labelOf ''io.kubernetes.pod.namespace'' labels\<rparr>),
      GetContainerName = labelOf ''io.kubernetes.container.name'',
      removeTerminatedContainerInfo = (\<lambda>infos. infos),
      isPodManagedContainer = (\<lambda>info. True),
      getCadvisorPodInfoFromPodUID = (\<lambda>uid infos. None),
      getLatestContainerStatsById = (\<lambda>i infos. None),
      cadvisorInfoToNetworkStats = (\<lambda>info. None),
      cadvisorInfoToCPUandMemoryStats = (\<lambda>info. (None, None)),
      cadvisorInfoToDiskIoStats = (\<lambda>info. None),
      cadvisorInfoToProcessStats = (\<lambda>info. None),
      cadvisorInfoToUserDefinedMetrics = (\<lambda>info. None),
      HasCustomMetrics = (\<lambda>info. False),
      convertToDiskIoStats = (\<lambda>d. None),
      DiskIoStats_make = (),
      DiskIoStats_Add = (\<lambda>d e. ()),
      getUint64Value = (\<lambda>v. case v of None \<Rightarrow> 0 | Some x \<Rightarrow> x),
      float64_out_of_range = (\<lambda>f. 0)\<rparr>"

definition exampleUpstream :: "(unit, unit) upstream" where
  "exampleUpstream =
     \<lparr>RootFsInfo = Inr \<lparr>Available = 1, Capacity = 2, fi_InodesFree = None, fi_Inodes = None\<rparr>,
      ListContainers = Inr [containerOf ''c1'' ''nginx'' CONTAINER_RUNNING 10],
      ListPodSandbox = Inr [sandboxOf ''s1'' ''web'' SANDBOX_READY 5],
      ListContainerStats =
        Inr [sampleOf ''c1'' 2000000100 1000000007,
             \<lparr>Attributes = Some \<lparr>ca_Id = ''ghost'', ca_Metadata = None\<rparr>,
              Cpu = None, Memory = None, WritableLayer = None\<rparr>],
      getCadvisorContainerInfo = Inr [],
      listContainerNetworkStats = Inr [],
      GetDirFsInfo = (\<lambda>mountpoint. Inl (Err ''no such device''))\<rparr>"

definition exampleCache :: cpuUsageCache where
  "exampleCache = [(''c1'', cachedOf 1000000100 7 (Some 42)), (''gone'', cachedOf 100 5 None)]"

section \<open>The dedup filters\<close>

subsection \<open>Grouping\<close>

lemma map_of_appendTo:
  "map_of (appendTo k v m) k' =
     (if k' = k then Some ((case map_of m k of None \<Rightarrow> [] | Some vs \<Rightarrow> vs) @ [v])
      else map_of m k')"
  by (induction m) auto

lemma keys_appendTo:
  "map fst (appendTo k v m) = (if k \<in> set (map fst m) then map fst m else map fst m @ [k])"
  by (induction m) force+

lemma groupBy_snoc: "groupBy key (xs @ [x]) = appendTo (key x) x (groupBy key xs)"
  by (simp add: groupBy_def)

lemma map_of_groupBy:
  "map_of (groupBy key xs) k =
     (if filter (\<lambda>x. key x = k) xs = [] then None else Some (filter (\<lambda>x. key x = k) xs))"
proof (induction xs arbitrary: k rule: rev_induct)
  case Nil
  show ?case by (simp add: groupBy_def)
next
  case (snoc x xs)
  show ?case
    by (simp add: groupBy_snoc map_of_appendTo snoc.IH)
qed

lemma distinct_groupBy: "distinct (map fst (groupBy key xs))"
proof (induction xs rule: rev_induct)
  case Nil
  show ?case by (simp add: groupBy_def)
next
  case (snoc x xs)
  then show ?case
    by (simp add: groupBy_snoc keys_appendTo)
qed

lemma groupBy_entry:
  assumes "(k, vs) \<in> set (groupBy key xs)"
  shows "vs = filter (\<lambda>x. key x = k) xs \<and> vs \<noteq> []"
proof -
  have "map_of (groupBy key xs) k = Some vs"
    using assms distinct_groupBy [of key xs] by simp
  then show ?thesis
    by (simp add: map_of_groupBy split: if_splits)
qed

lemma groupBy_nonempty: "(k, vs) \<in> set (groupBy key xs) \<Longrightarrow> vs \<noteq> []"
  by (simp add: groupBy_entry)

lemma filter_concat_groups:
  assumes "distinct (map fst G)"
    and "\<And>k' vs v. (k', vs) \<in> set G \<Longrightarrow> v \<in> set (sel vs) \<Longrightarrow> key v = k'"
  shows "filter (\<lambda>v. key v = k) (concat (map (\<lambda>(k', vs). sel vs) G)) =
           (case map_of G k of None \<Rightarrow> [] | Some vs \<Rightarrow> sel vs)"
  using assms
proof (induction G)
  case Nil
  show ?case by simp
next
  case (Cons g G)
  obtain k' vs where g: "g = (k', vs)" by (cases g)
  have IH: "filter (\<lambda>v. key v = k) (concat (map (\<lambda>(k', vs). sel vs) G)) =
           (case map_of G k of None \<Rightarrow> [] | Some vs \<Rightarrow> sel vs)"
  proof (rule Cons.IH)
    show "distinct (map fst G)" using Cons.prems(1) by simp
    show "\<And>k' vs v. (k', vs) \<in> set G \<Longrightarrow> v \<in> set (sel vs) \<Longrightarrow> key v = k'"
      using Cons.prems(2) by (meson list.set_intros(2))
  qed
  have here: "\<And>v. v \<in> set (sel vs) \<Longrightarrow> key v = k'"
    using Cons.prems(2) [of k' vs] g by simp
  show ?case
  proof (cases "k = k'")
    case True
    have "map_of G k = None"
      using Cons.prems(1) g True by (simp add: map_of_eq_None_iff)
    moreover have "filter (\<lambda>v. key v = k) (sel vs) = sel vs"
      using here True by (simp add: filter_id_conv)
    ultimately show ?thesis
      using IH g True by simp
  next
    case False
    have "filter (\<lambda>v. key v = k) (sel vs) = []"
      using here False by (auto simp: filter_empty_conv)
    then show ?thesis
      using IH g False by simp
  qed
qed

lemma filter_groupBy_select:
  assumes sub: "\<And>vs. set (sel vs) \<subseteq> set vs" and nil: "sel [] = []"
  shows "filter (\<lambda>v. key v = k) (concat (map (\<lambda>(k', vs). sel vs) (groupBy key xs))) =
           sel (filter (\<lambda>v. key v = k) xs)"
proof -
  have "\<And>k' vs v. (k', vs) \<in> set (groupBy key xs) \<Longrightarrow> v \<in> set (sel vs) \<Longrightarrow> key v = k'"
  proof -
    fix k' vs v
    assume "(k', vs) \<in> set (groupBy key xs)" and v: "v \<in> set (sel vs)"
    then have "vs = filter (\<lambda>x. key x = k') xs" by (simp add: groupBy_entry)
    moreover have "v \<in> set vs" using v sub by blast
    ultimately show "key v = k'" by simp
  qed
  then have "filter (\<lambda>v. key v = k) (concat (map (\<lambda>(k', vs). sel vs) (groupBy key xs))) =
           (case map_of (groupBy key xs) k of None \<Rightarrow> [] | Some vs \<Rightarrow> sel vs)"
    by (rule filter_concat_groups [OF distinct_groupBy])
  then show ?thesis
    by (simp add: map_of_groupBy nil)
qed

subsection \<open>Pod dedup\<close>

lemma set_selectPods: "set (selectPods refs) \<subseteq> set refs"
  by (induction refs rule: selectPods.induct) (auto simp: Let_def)

lemma kept_pods:
  "filter (\<lambda>p. podRefID p = k) (removeTerminatedPods_sorted sp) =
     selectPods (filter (\<lambda>p. podRefID p = k) sp)"
  unfolding removeTerminatedPods_sorted_def
  by (rule filter_groupBy_select) (simp_all add: set_selectPods)

lemma selectPods_single: "length refs = 1 \<Longrightarrow> selectPods refs = refs"
  by (cases refs rule: selectPods.cases) simp_all

lemma selectPods_several:
  "1 < length refs \<Longrightarrow>
     selectPods refs =
       (if \<exists>p \<in> set refs. sb_State p = SANDBOX_READY
        then filter (\<lambda>p. sb_State p = SANDBOX_READY) refs else [last refs])"
  by (cases refs rule: selectPods.cases) (auto simp: Let_def filter_empty_conv)

lemma sorted_last_max:
  assumes "sorted (map f xs)" and "x \<in> set xs"
  shows "f x \<le> f (last xs)"
proof -
  have ne: "xs \<noteq> []" using assms(2) by auto
  obtain i where i: "i < length xs" "xs ! i = x"
    using assms(2) by (auto simp: in_set_conv_nth)
  have "map f xs ! i \<le> map f xs ! (length xs - 1)"
    using assms(1) i(1) by (intro sorted_nth_mono) auto
  then show ?thesis
    using i ne by (simp add: last_conv_nth)
qed

lemma sort_key_is_outcome: "sort_Slice_outcome key xs (sort_key key xs)"
  by (simp add: sort_Slice_outcome_def)

text \<open>
  Claim C5. Pod dedup: take any outcome \<open>sp\<close> of the sort by creation time
  (\<open>removeTerminatedPods\<close> is \<open>removeTerminatedPods_sorted\<close> on one of them) and any key \<open>k\<close>
  (a name and a namespace, the UID empty); \<open>grp\<close> is the group of \<open>k\<close>, the sandboxes of the
  input with that key, and \<open>kept\<close> what the result holds of it. A key without a sandbox has
  nothing in the result. A group of one member is kept; of a group of several members with a ready one, exactly the ready members are kept;
  of a group of several members none of which is ready, exactly the last one in the sorted
  order is kept, and no member of the group was created later.
\<close>

theorem removeTerminatedPods_policy:
  assumes "sort_Slice_outcome (\<lambda>p. sint (sb_CreatedAt p)) pods sp"
  shows "let grp = filter (\<lambda>p. podRefID p = k) sp;
             kept = filter (\<lambda>p. podRefID p = k) (removeTerminatedPods_sorted sp)
         in mset grp = filter_mset (\<lambda>p. podRefID p = k) (mset pods) \<and>
            (grp = [] \<longrightarrow> kept = []) \<and>
            (length grp = 1 \<longrightarrow> kept = grp) \<and>
            (1 < length grp \<and> (\<exists>p \<in> set grp. sb_State p = SANDBOX_READY) \<longrightarrow>
               kept = filter (\<lambda>p. sb_State p = SANDBOX_READY) grp) \<and>
            (1 < length grp \<and> \<not> (\<exists>p \<in> set grp. sb_State p = SANDBOX_READY) \<longrightarrow>
               kept = [last grp] \<and> last grp \<in> set grp \<and>
               (\<forall>q \<in> set grp. sint (sb_CreatedAt q) \<le> sint (sb_CreatedAt (last grp))))"
proof -
  define grp where "grp = filter (\<lambda>p. podRefID p = k) sp"
  have kept: "filter (\<lambda>p. podRefID p = k) (removeTerminatedPods_sorted sp) = selectPods grp"
    by (simp add: kept_pods grp_def)
  have m: "mset grp = filter_mset (\<lambda>p. podRefID p = k) (mset pods)"
    using assms by (simp add: grp_def sort_Slice_outcome_def)
  have "sorted (map (\<lambda>p. sint (sb_CreatedAt p)) grp)"
    using assms unfolding grp_def sort_Slice_outcome_def by (simp add: sorted_filter)
  then have mx: "\<forall>q \<in> set grp. sint (sb_CreatedAt q) \<le> sint (sb_CreatedAt (last grp))"
    using sorted_last_max [of "\<lambda>p. sint (sb_CreatedAt p)" grp] by blast
  have l: "1 < length grp \<Longrightarrow> last grp \<in> set grp"
    by (cases grp) auto
  show ?thesis
    unfolding Let_def kept grp_def [symmetric]
    using m mx l by (auto simp: selectPods_single selectPods_several)
qed

theorem removeTerminatedPods_policy_witness:
  "filter (\<lambda>p. podRefID p = \<lparr>Name = ''web'', UID = [], Namespace = ''default''\<rparr>)
     (removeTerminatedPods
        [sandboxOf ''s3'' ''web'' SANDBOX_NOTREADY 30, sandboxOf ''s1'' ''web'' SANDBOX_NOTREADY 10,
         sandboxOf ''s4'' ''db'' SANDBOX_NOTREADY 5, sandboxOf ''s2'' ''web'' SANDBOX_NOTREADY 20]) =
   [sandboxOf ''s3'' ''web'' SANDBOX_NOTREADY 30] \<and>
   filter (\<lambda>p. podRefID p = \<lparr>Name = ''web'', UID = [], Namespace = ''default''\<rparr>)
     (removeTerminatedPods
        [sandboxOf ''s3'' ''web'' SANDBOX_NOTREADY 30, sandboxOf ''s1'' ''web'' SANDBOX_READY 10,
         sandboxOf ''s2'' ''web'' SANDBOX_READY 20]) =
   [sandboxOf ''s1'' ''web'' SANDBOX_READY 10, sandboxOf ''s2'' ''web'' SANDBOX_READY 20]"
  using removeTerminatedPods_policy [OF sort_key_is_outcome,
      where pods = "[sandboxOf ''s3'' ''web'' SANDBOX_NOTREADY 30, sandboxOf ''s1'' ''web'' SANDBOX_NOTREADY 10,
           sandboxOf ''s4'' ''db'' SANDBOX_NOTREADY 5, sandboxOf ''s2'' ''web'' SANDBOX_NOTREADY 20]"
        and k = "\<lparr>Name = ''web'', UID = [], Namespace = ''default''\<rparr>"]
    removeTerminatedPods_policy [OF sort_key_is_outcome,
      where pods = "[sandboxOf ''s3'' ''web'' SANDBOX_NOTREADY 30, sandboxOf ''s1'' ''web'' SANDBOX_READY 10,
           sandboxOf ''s2'' ''web'' SANDBOX_READY 20]"
        and k = "\<lparr>Name = ''web'', UID = [], Namespace = ''default''\<rparr>"]
  by (simp add: removeTerminatedPods_def sandboxOf_def podRefID_def GetName_def GetNamespace_def)

subsection \<open>Container dedup\<close>

lemma kept_containers:
  "filter (\<lambda>c. containerRefID H c = k) (removeTerminatedContainers_sorted H sc) =
     filter (\<lambda>c. ct_State c = CONTAINER_RUNNING) (filter (\<lambda>c. containerRefID H c = k) sc)"
  unfolding removeTerminatedContainers_sorted_def
  by (rule filter_groupBy_select) simp_all

text \<open>
  Claim C6. Container dedup: take any outcome \<open>sc\<close> of the sort by creation time
  (\<open>removeTerminatedContainers\<close> is \<open>removeTerminatedContainers_sorted\<close> on one of them) and
  any key \<open>k\<close> (a pod reference without UID and a container name); \<open>grp\<close> is the group of \<open>k\<close> and
  \<open>kept\<close> what the result holds of it. Exactly the running members of the group are kept; a
  group with no running member leaves nothing in the result.
\<close>

theorem removeTerminatedContainers_policy:
  assumes "sort_Slice_outcome (\<lambda>c. sint (ct_CreatedAt c)) containers sc"
  shows "let grp = filter (\<lambda>c. containerRefID H c = k) sc;
             kept = filter (\<lambda>c. containerRefID H c = k) (removeTerminatedContainers_sorted H sc)
         in mset grp = filter_mset (\<lambda>c. containerRefID H c = k) (mset containers) \<and>
            kept = filter (\<lambda>c. ct_State c = CONTAINER_RUNNING) grp \<and>
            ((\<forall>c \<in> set grp. ct_State c \<noteq> CONTAINER_RUNNING) \<longrightarrow> kept = [])"
  using assms
  by (simp add: Let_def kept_containers sort_Slice_outcome_def filter_empty_conv)

theorem removeTerminatedContainers_policy_witness:
  "filter (\<lambda>c. containerRefID exampleHelpers c =
              \<lparr>podRef = \<lparr>Name = ''web'', UID = [], Namespace = ''default''\<rparr>, containerName = ''nginx''\<rparr>)
     (removeTerminatedContainers exampleHelpers
        [containerOf ''c2'' ''nginx'' CONTAINER_RUNNING 20, containerOf ''c1'' ''nginx'' CONTAINER_EXITED 10,
         containerOf ''c3'' ''sidecar'' CONTAINER_EXITED 5]) =
   [containerOf ''c2'' ''nginx'' CONTAINER_RUNNING 20] \<and>
   filter (\<lambda>c. containerRefID exampleHelpers c =
              \<lparr>podRef = \<lparr>Name = ''web'', UID = [], Namespace = ''default''\<rparr>, containerName = ''nginx''\<rparr>)
     (removeTerminatedContainers exampleHelpers
        [containerOf ''c2'' ''nginx'' CONTAINER_EXITED 20, containerOf ''c1'' ''nginx'' CONTAINER_EXITED 10]) =
   []"
  using removeTerminatedContainers_policy [OF sort_key_is_outcome,
      where containers = "[containerOf ''c2'' ''nginx'' CONTAINER_RUNNING 20, containerOf ''c1'' ''nginx'' CONTAINER_EXITED 10,
           containerOf ''c3'' ''sidecar'' CONTAINER_EXITED 5]"
        and H = exampleHelpers
        and k = "\<lparr>podRef = \<lparr>Name = ''web'', UID = [], Namespace = ''default''\<rparr>, containerName = ''nginx''\<rparr>"]
    removeTerminatedContainers_policy [OF sort_key_is_outcome,
      where containers = "[containerOf ''c2'' ''nginx'' CONTAINER_EXITED 20, containerOf ''c1'' ''nginx'' CONTAINER_EXITED 10]"
        and H = exampleHelpers
        and k = "\<lparr>podRef = \<lparr>Name = ''web'', UID = [], Namespace = ''default''\<rparr>, containerName = ''nginx''\<rparr>"]
  by (simp add: removeTerminatedContainers_def containerOf_def containerRefID_def exampleHelpers_def
      labelOf_def)

section \<open>The rate cache\<close>

subsection \<open>Observing a sample\<close>

text \<open>
  Claim C3. Counter regression: when the cache holds a sample for the container and the new
  cumulative counter is strictly below the cached one, the update path returns no rate (the
  result is \<open>None\<close>, not a number) and stores the new raw sample with no rate under the
  container's id, leaving every other entry as it was.
\<close>

theorem counter_regression_yields_no_rate:
  assumes "Attributes s = Some a" and "Cpu s = Some newStats"
    and "UsageCoreNanoSeconds newStats = Some newValue"
    and "map_of cache (ca_Id a) = Some (Some cached)" and "stats cached = Some cachedStats"
    and "UsageCoreNanoSeconds cachedStats = Some cachedValue"
    and "newValue < cachedValue"
  shows "\<exists>cache'. getAndUpdateContainerUsageNanoCores oor cache (Some s) = Inr (cache', None) \<and>
           cache' = AList.update (ca_Id a) (Some \<lparr>stats = Some newStats, usageNanoCores = None\<rparr>) cache \<and>
           map_of cache' = (map_of cache)(ca_Id a \<mapsto> Some \<lparr>stats = Some newStats, usageNanoCores = None\<rparr>)"
  using assms by (simp add: getAndUpdateContainerUsageNanoCores_def update_conv')

theorem counter_regression_yields_no_rate_witness:
  "getAndUpdateContainerUsageNanoCores (\<lambda>f. 0) [(''c'', cachedOf 100 9 (Some 4))]
     (Some (sampleOf ''c'' 200 7)) =
   Inr ([(''c'', cachedOf 200 7 None)], None)"
  using counter_regression_yields_no_rate [of "sampleOf ''c'' 200 7"
     "\<lparr>ca_Id = ''c'', ca_Metadata = Some \<lparr>cm_Name = ''c''\<rparr>\<rparr>"
     "\<lparr>Timestamp = 200, UsageCoreNanoSeconds = Some 7\<rparr>" 7
     "[(''c'', cachedOf 100 9 (Some 4))]"
     "\<lparr>stats = Some \<lparr>Timestamp = 100, UsageCoreNanoSeconds = Some 9\<rparr>, usageNanoCores = Some 4\<rparr>"
     "\<lparr>Timestamp = 100, UsageCoreNanoSeconds = Some 9\<rparr>" 9 "\<lambda>f. 0"]
  by (simp add: sampleOf_def cachedOf_def)

text \<open>
  Claim C2, as amended. For a sample with a counter: when the cache has no entry for the
  container, when the cached sample has no counter, or when the cached counter is greater
  than the new one, no rate is returned and the entry is replaced with the new raw sample
  and no rate. When the cached counter is not greater and the elapsed time (the
  \<^verbatim>\<open>int64\<close> difference of the timestamps) is not positive, no rate is returned and the
  cache is left as it was: the entry is not replaced.
\<close>

theorem failed_precondition_cache_update:
  assumes "Attributes s = Some a" and "Cpu s = Some newStats"
    and "UsageCoreNanoSeconds newStats = Some newValue"
  shows "(map_of cache (ca_Id a) = None \<longrightarrow>
            getAndUpdateContainerUsageNanoCores oor cache (Some s) =
              Inr (AList.update (ca_Id a) (Some \<lparr>stats = Some newStats, usageNanoCores = None\<rparr>) cache, None)) \<and>
         (\<forall>cached cachedStats.
            map_of cache (ca_Id a) = Some (Some cached) \<and> stats cached = Some cachedStats \<longrightarrow>
              (case UsageCoreNanoSeconds cachedStats of
                 None \<Rightarrow>
                   getAndUpdateContainerUsageNanoCores oor cache (Some s) =
                     Inr (AList.update (ca_Id a) (Some \<lparr>stats = Some newStats, usageNanoCores = None\<rparr>) cache, None)
               | Some cachedValue \<Rightarrow>
                   (newValue < cachedValue \<longrightarrow>
                      getAndUpdateContainerUsageNanoCores oor cache (Some s) =
                        Inr (AList.update (ca_Id a) (Some \<lparr>stats = Some newStats, usageNanoCores = None\<rparr>) cache, None)) \<and>
                   (cachedValue \<le> newValue \<and> sint (Timestamp newStats - Timestamp cachedStats) \<le> 0 \<longrightarrow>
                      getAndUpdateContainerUsageNanoCores oor cache (Some s) = Inr (cache, None))))"
  using assms
  by (auto simp: getAndUpdateContainerUsageNanoCores_def Let_def split: option.splits)


theorem failed_precondition_cache_update_witness:
  "getAndUpdateContainerUsageNanoCores (\<lambda>f. 0) [] (Some (sampleOf ''c'' 100 7)) =
     Inr ([(''c'', cachedOf 100 7 None)], None) \<and>
   getAndUpdateContainerUsageNanoCores (\<lambda>f. 0) [(''c'', cachedOf 100 5 (Some 3))]
     (Some (sampleOf ''c'' 90 7)) =
     Inr ([(''c'', cachedOf 100 5 (Some 3))], None)"
  using failed_precondition_cache_update [of "sampleOf ''c'' 100 7"
     "\<lparr>ca_Id = ''c'', ca_Metadata = Some \<lparr>cm_Name = ''c''\<rparr>\<rparr>"
     "\<lparr>Timestamp = 100, UsageCoreNanoSeconds = Some 7\<rparr>" 7 "[]" "\<lambda>f. 0"]
    failed_precondition_cache_update [of "sampleOf ''c'' 90 7"
     "\<lparr>ca_Id = ''c'', ca_Metadata = Some \<lparr>cm_Name = ''c''\<rparr>\<rparr>"
     "\<lparr>Timestamp = 90, UsageCoreNanoSeconds = Some 7\<rparr>" 7 "[(''c'', cachedOf 100 5 (Some 3))]"
     "\<lambda>f. 0"]
  by (simp add: sampleOf_def cachedOf_def)

text \<open>
  The claim as the specification states it fails: with a cached sample of the same
  timestamp the interval is zero, no rate is returned, and the entry still holds the old
  sample (counter 5), not the new one (counter 7).
\<close>

theorem zero_interval_keeps_old_sample_counterexample:
  "getAndUpdateContainerUsageNanoCores (\<lambda>f. 0) [(''c'', cachedOf 100 5 None)]
     (Some (sampleOf ''c'' 100 7)) =
     Inr ([(''c'', cachedOf 100 5 None)], None) \<and>
   map_of [(''c'', cachedOf 100 5 None)] ''c'' \<noteq> Some (cachedOf 100 7 None)"
  by (simp add: getAndUpdateContainerUsageNanoCores_def sampleOf_def cachedOf_def)

subsection \<open>The rate\<close>

text \<open>
  \<open>float64_exponent\<close> is the binary exponent, so \<open>float64_round\<close> keeps 53 significant bits
  and its relative error is at most \<open>2\<^sup>-\<^sup>5\<^sup>3\<close>.
\<close>

lemma pos_rat_quotient:
  assumes "0 < (x::rat)"
  obtains n d where "quotient_of x = (n, d)" "0 < n" "0 < d" "x = of_int n / of_int d"
proof -
  obtain n d where q: "quotient_of x = (n, d)" by (cases "quotient_of x")
  have d: "0 < d" using q by (rule quotient_of_denom_pos)
  have x: "x = of_int n / of_int d" using q by (rule quotient_of_div)
  have "0 < n" using assms d x by (simp add: zero_less_divide_iff)
  then show ?thesis using that q d x by blast
qed

lemma bitlen_powi_bounds:
  assumes "0 < n"
  shows "(2::rat) powi (bitlen n - 1) \<le> of_int n \<and> (of_int n :: rat) < 2 powi (bitlen n)"
proof -
  have b: "2 ^ nat (bitlen n - 1) \<le> n \<and> n < 2 ^ nat (bitlen n)"
    using assms by (rule bitlen_bounds)
  have ge: "1 \<le> bitlen n" using assms by (simp add: bitlen_alt_def)
  have "(of_int (2 ^ nat (bitlen n - 1)) :: rat) \<le> of_int n"
    using b by (simp only: of_int_le_iff)
  moreover have "(of_int n :: rat) < of_int (2 ^ nat (bitlen n))"
    using b by (simp only: of_int_less_iff)
  ultimately show ?thesis
    using ge by (simp add: power_int_def)
qed

lemma float64_exponent_bounds:
  assumes "0 < x"
  shows "2 powi (float64_exponent x) \<le> x \<and> x < 2 powi (float64_exponent x + 1)"
proof -
  obtain n d where q: "quotient_of x = (n, d)" and n: "0 < n" and d: "0 < d"
    and x: "x = of_int n / of_int d"
    using assms by (rule pos_rat_quotient)
  define k where "k = bitlen n - bitlen d"
  have bn: "(2::rat) powi (bitlen n - 1) \<le> of_int n" "(of_int n :: rat) < 2 powi (bitlen n)"
    using bitlen_powi_bounds [OF n] by simp_all
  have bd: "(2::rat) powi (bitlen d - 1) \<le> of_int d" "(of_int d :: rat) < 2 powi (bitlen d)"
    using bitlen_powi_bounds [OF d] by simp_all
  have dpos: "(0::rat) < of_int d" using d by simp
  have p: "(0::rat) < 2 powi i" for i by simp
  have lo: "(2::rat) powi (k - 1) \<le> x"
  proof -
    have "k - 1 = (bitlen n - 1) - bitlen d"
      by (simp add: k_def)
    then have "(2::rat) powi (k - 1) = 2 powi ((bitlen n - 1) - bitlen d)"
      by (rule arg_cong)
    also have "\<dots> = 2 powi (bitlen n - 1) / 2 powi (bitlen d)"
      by (rule power_int_diff) simp
    also have "\<dots> \<le> of_int n / 2 powi (bitlen d)"
      using bn(1) by (simp add: divide_right_mono)
    also have "\<dots> \<le> of_int n / of_int d"
      using bd(2) n dpos by (intro divide_left_mono) (simp_all add: less_imp_le)
    finally show ?thesis by (simp add: x)
  qed
  have hi: "x < (2::rat) powi (k + 1)"
  proof -
    have "x = of_int n / of_int d" by (rule x)
    also have "\<dots> < 2 powi (bitlen n) / of_int d"
      using bn(2) dpos by (simp add: divide_strict_right_mono)
    also have "\<dots> \<le> 2 powi (bitlen n) / 2 powi (bitlen d - 1)"
      using bd(1) dpos by (intro divide_left_mono) (simp_all add: zero_less_mult_iff)
    also have "\<dots> = 2 powi (bitlen n - (bitlen d - 1))"
      by (rule power_int_diff [symmetric]) simp
    also have "\<dots> = 2 powi (k + 1)"
    proof -
      have "bitlen n - (bitlen d - 1) = k + 1" by (simp add: k_def)
      then show ?thesis by (rule arg_cong)
    qed
    finally show ?thesis .
  qed
  have e: "float64_exponent x = (if 2 powi k \<le> x then k else k - 1)"
    by (simp add: float64_exponent_def q k_def Let_def)
  show ?thesis
  proof (cases "2 powi k \<le> x")
    case True
    then show ?thesis using hi e by simp
  next
    case False
    then show ?thesis using lo e by simp
  qed
qed

lemma round_to_even_err: "\<bar>of_int (round_to_even y) - y\<bar> \<le> 1 / 2"
proof -
  have "of_int \<lfloor>y\<rfloor> \<le> y" "y < of_int \<lfloor>y\<rfloor> + 1" by linarith+
  then show ?thesis
    by (auto simp: round_to_even_def Let_def abs_le_iff)
qed

lemma float64_round_err:
  assumes "0 < x"
  shows "\<bar>float64_round x - x\<bar> \<le> x / 2 ^ 53"
proof -
  define e where "e = float64_exponent x"
  define ulp :: rat where "ulp = 2 powi (e - 52)"
  have ulp: "0 < ulp" by (simp add: ulp_def)
  have r: "float64_round x = of_int (round_to_even (x / ulp)) * ulp"
    using assms by (simp add: float64_round_def Let_def ulp_def e_def)
  have "\<bar>float64_round x - x\<bar> = \<bar>of_int (round_to_even (x / ulp)) - x / ulp\<bar> * ulp"
  proof -
    have "float64_round x - x = (of_int (round_to_even (x / ulp)) - x / ulp) * ulp"
      using ulp by (simp add: r field_simps)
    then show ?thesis using ulp by (simp add: abs_mult)
  qed
  also have "\<dots> \<le> (1 / 2) * ulp"
    using round_to_even_err [of "x / ulp"] ulp by (intro mult_right_mono) simp_all
  also have "\<dots> = 2 powi e / 2 ^ 53"
  proof -
    have "(2::rat) powi (e - 52) = 2 powi e / 2 powi 52" by (simp add: power_int_diff)
    then show ?thesis by (simp add: ulp_def)
  qed
  also have "\<dots> \<le> x / 2 ^ 53"
    using float64_exponent_bounds [OF assms] by (simp add: e_def divide_right_mono)
  finally show ?thesis .
qed

lemma float64_round_1e9: "float64_round 1000000000 = 1000000000"
  by code_simp


lemma float64_round_rel:
  assumes "0 < x"
  shows "x * (1 - 1 / 2 ^ 53) \<le> float64_round x \<and> float64_round x \<le> x * (1 + 1 / 2 ^ 53)"
proof -
  define e where "e = x / 2 ^ 53"
  have "\<bar>float64_round x - x\<bar> \<le> e"
    unfolding e_def using assms by (rule float64_round_err)
  then have "float64_round x - x \<le> e" and "x - float64_round x \<le> e"
    by (simp_all add: abs_le_iff)
  moreover have "x * (1 - 1 / 2 ^ 53) = x - e" and "x * (1 + 1 / 2 ^ 53) = x + e"
    by (simp_all add: e_def algebra_simps)
  ultimately show ?thesis by (simp add: algebra_simps)
qed

lemma rounding_factor_hi: "(1 + 1 / 2 ^ 53) ^ 3 / (1 - 1 / 2 ^ 53) \<le> (1 + 1 / 2 ^ 50 :: rat)"
  by (simp add: power_divide)

lemma rounding_factor_lo: "(1 - 1 / 2 ^ 50 :: rat) \<le> (1 - 1 / 2 ^ 53) ^ 3 / (1 + 1 / 2 ^ 53)"
  by (simp add: power_divide)

lemma float64_round_pos:
  assumes "0 < x"
  shows "0 < float64_round x"
proof -
  have "0 < x * (1 - 1 / 2 ^ 53)" using assms by simp
  then show ?thesis using float64_round_rel [OF assms] by linarith
qed

lemma rate_float_bounds:
  fixes A B :: rat
  assumes A: "0 < A" and B: "0 < B"
  defines "E \<equiv> A * 1000000000 / B"
  defines "p \<equiv> float64_mul (float64_div (float64_round A) (float64_round B)) (float64_round 1000000000)"
  shows "E * (1 - 1 / 2 ^ 50) \<le> p \<and> p \<le> E * (1 + 1 / 2 ^ 50)"
proof -
  define u :: rat where "u = 1 / 2 ^ 53"
  have u: "0 < u" "u < 1" by (simp_all add: u_def)
  define fa where "fa = float64_round A"
  define fb where "fb = float64_round B"
  define d where "d = fa / fb"
  define q where "q = float64_round d"
  define m where "m = q * 1000000000"
  have p: "p = float64_round m"
    by (simp add: p_def float64_mul_def float64_div_def float64_round_1e9 m_def q_def d_def
        fa_def fb_def)
  have fa: "A * (1 - u) \<le> fa" "fa \<le> A * (1 + u)" "0 < fa"
    using float64_round_rel [OF A] float64_round_pos [OF A] by (simp_all add: fa_def u_def)
  have fb: "B * (1 - u) \<le> fb" "fb \<le> B * (1 + u)" "0 < fb"
    using float64_round_rel [OF B] float64_round_pos [OF B] by (simp_all add: fb_def u_def)
  have dpos: "0 < d" using fa(3) fb(3) by (simp add: d_def)
  have q: "d * (1 - u) \<le> q" "q \<le> d * (1 + u)" "0 < q"
    using float64_round_rel [OF dpos] float64_round_pos [OF dpos] by (simp_all add: q_def u_def)
  have mpos: "0 < m" using q(3) by (simp add: m_def)
  have pm: "m * (1 - u) \<le> p" "p \<le> m * (1 + u)"
    using float64_round_rel [OF mpos] by (simp_all add: p u_def)
  have Bl: "0 < B * (1 - u)" using B u by simp
  have d_hi: "d \<le> (A * (1 + u)) / (B * (1 - u))"
    unfolding d_def using fa fb Bl by (intro frac_le) simp_all
  have d_lo: "(A * (1 - u)) / (B * (1 + u)) \<le> d"
    unfolding d_def using fa fb A B u by (intro frac_le) simp_all
  have hi: "p \<le> E * ((1 + u) ^ 3 / (1 - u))"
  proof -
    have "p \<le> m * (1 + u)" by (rule pm)
    also have "\<dots> = q * (1000000000 * (1 + u))"
      by (simp add: m_def)
    also have "\<dots> \<le> (d * (1 + u)) * (1000000000 * (1 + u))"
      by (rule mult_right_mono [OF q(2)]) (use u in simp)
    also have "\<dots> = d * ((1 + u) * (1000000000 * (1 + u)))"
      by simp
    also have "\<dots> \<le> ((A * (1 + u)) / (B * (1 - u))) * ((1 + u) * (1000000000 * (1 + u)))"
      by (rule mult_right_mono [OF d_hi]) (use u in simp)
    also have "\<dots> = E * ((1 + u) ^ 3 / (1 - u))"
      using B u by (simp add: E_def power3_eq_cube field_simps)
    finally show ?thesis .
  qed
  have lo: "E * ((1 - u) ^ 3 / (1 + u)) \<le> p"
  proof -
    have "E * ((1 - u) ^ 3 / (1 + u)) =
            ((A * (1 - u)) / (B * (1 + u))) * ((1 - u) * (1000000000 * (1 - u)))"
      using B u by (simp add: E_def power3_eq_cube field_simps)
    also have "\<dots> \<le> d * ((1 - u) * (1000000000 * (1 - u)))"
      by (rule mult_right_mono [OF d_lo]) (use u in simp)
    also have "\<dots> = (d * (1 - u)) * (1000000000 * (1 - u))"
      by simp
    also have "\<dots> \<le> q * (1000000000 * (1 - u))"
      by (rule mult_right_mono [OF q(1)]) (use u in simp)
    also have "\<dots> = m * (1 - u)"
      by (simp add: m_def)
    also have "\<dots> \<le> p" by (rule pm)
    finally show ?thesis .
  qed
  have Epos: "0 < E" using A B by (simp add: E_def)
  have k_hi: "(1 + u) ^ 3 / (1 - u) \<le> 1 + 1 / 2 ^ 50"
    unfolding u_def by (rule rounding_factor_hi)
  have k_lo: "1 - 1 / 2 ^ 50 \<le> (1 - u) ^ 3 / (1 + u)"
    unfolding u_def by (rule rounding_factor_lo)
  have "E * ((1 + u) ^ 3 / (1 - u)) \<le> E * (1 + 1 / 2 ^ 50)"
    by (rule mult_left_mono [OF k_hi]) (use Epos in simp)
  then have "p \<le> E * (1 + 1 / 2 ^ 50)"
    using hi by (rule order_trans [rotated])
  moreover have "E * (1 - 1 / 2 ^ 50) \<le> E * ((1 - u) ^ 3 / (1 + u))"
    by (rule mult_left_mono [OF k_lo]) (use Epos in simp)
  then have "E * (1 - 1 / 2 ^ 50) \<le> p"
    using lo by (rule order_trans)
  ultimately show ?thesis by blast
qed


lemma usageNanoCoresOf_tolerance:
  assumes delta: "0 < uint delta" and ns: "0 < sint nanoSeconds"
    and range: "exactRate (uint delta) (sint nanoSeconds) * (1 + 1 / 2 ^ 50) < 2 ^ 64"
  shows "\<bar>of_int (uint (usageNanoCoresOf oor delta nanoSeconds)) - exactRate (uint delta) (sint nanoSeconds)\<bar>
           < 1 + exactRate (uint delta) (sint nanoSeconds) / 2 ^ 50"
proof -
  define E where "E = exactRate (uint delta) (sint nanoSeconds)"
  define p where "p = float64_mul (float64_div (float64_of_uint64 delta) (float64_of_int64 nanoSeconds))
                        (float64_round 1000000000)"
  have A: "(0::rat) < of_int (uint delta)" and B: "(0::rat) < of_int (sint nanoSeconds)"
    using delta ns by (simp_all only: of_int_0_less_iff)
  have b: "E * (1 - 1 / 2 ^ 50) \<le> p \<and> p \<le> E * (1 + 1 / 2 ^ 50)"
    using rate_float_bounds [OF A B]
    by (simp add: E_def p_def exactRate_def float64_of_uint64_def float64_of_int64_def)
  have Epos: "0 < E" using A B by (simp add: E_def exactRate_def)
  have "0 \<le> E * (1 - 1 / 2 ^ 50)" using Epos by simp
  then have p0: "0 \<le> p" using b by linarith
  have p64: "p < 2 ^ 64" using b range by (simp add: E_def)
  have fl: "0 \<le> \<lfloor>p\<rfloor>" "\<lfloor>p\<rfloor> < 2 ^ 64"
    using p0 p64 by (simp_all add: floor_less_iff)
  have "usageNanoCoresOf oor delta nanoSeconds = word_of_int \<lfloor>p\<rfloor>"
    using p0 p64 by (simp add: usageNanoCoresOf_def uint64_of_float64_def p_def)
  then have u: "uint (usageNanoCoresOf oor delta nanoSeconds) = \<lfloor>p\<rfloor>"
    using fl by (simp add: uint_word_of_int take_bit_int_eq_self)
  have f: "of_int \<lfloor>p\<rfloor> \<le> p" "p < of_int \<lfloor>p\<rfloor> + 1" by linarith+
  define t where "t = E / 2 ^ 50"
  have t: "E * (1 - 1 / 2 ^ 50) = E - t" "E * (1 + 1 / 2 ^ 50) = E + t"
    by (simp_all add: t_def algebra_simps)
  have "E - t \<le> p" "p \<le> E + t" using b t by simp_all
  then have "of_int \<lfloor>p\<rfloor> - E < 1 + t" and "E - of_int \<lfloor>p\<rfloor> < 1 + t"
    using f by linarith+
  then have "\<bar>of_int \<lfloor>p\<rfloor> - E\<bar> < 1 + t"
    by (simp only: abs_less_iff minus_diff_eq)
  then show ?thesis
    by (simp add: u E_def t_def)
qed

text \<open>
  Claim C4, as amended. When the cache holds a sample for the container, the cumulative
  counter has strictly increased by \<open>dns\<close>, the interval \<open>dt\<close> is strictly positive and
  below \<open>2\<^sup>6\<^sup>3\<close> nanoseconds (the \<^verbatim>\<open>int64\<close> difference of the timestamps does not
  wrap), and the exact rate \<open>E = dns / dt \<times> 10\<^sup>9\<close> fits a \<^verbatim>\<open>uint64\<close> with the margin of
  the rounding (\<open>E (1 + 2\<^sup>-\<^sup>5\<^sup>0) < 2\<^sup>6\<^sup>4\<close>), the update path returns a rate that differs
  from \<open>E\<close> by less than \<open>1 + E / 2\<^sup>5\<^sup>0\<close> (the truncation to an integer and the rounding
  of the float64 operations), and stores that rate with the new sample in the cache.
\<close>

theorem rate_within_float64_tolerance:
  assumes "Attributes s = Some a" and "Cpu s = Some newStats"
    and "UsageCoreNanoSeconds newStats = Some newValue"
    and "map_of cache (ca_Id a) = Some (Some cached)" and "stats cached = Some cachedStats"
    and "UsageCoreNanoSeconds cachedStats = Some cachedValue"
    and increase: "cachedValue < newValue"
    and interval: "0 < sint (Timestamp newStats) - sint (Timestamp cachedStats)"
      "sint (Timestamp newStats) - sint (Timestamp cachedStats) < 2 ^ 63"
    and range: "exactRate (uint newValue - uint cachedValue)
                  (sint (Timestamp newStats) - sint (Timestamp cachedStats)) * (1 + 1 / 2 ^ 50) < 2 ^ 64"
  shows "\<exists>usage.
           getAndUpdateContainerUsageNanoCores oor cache (Some s) =
             Inr (AList.update (ca_Id a) (Some \<lparr>stats = Some newStats, usageNanoCores = Some usage\<rparr>) cache,
                  Some usage) \<and>
           \<bar>of_int (uint usage) -
              exactRate (uint newValue - uint cachedValue)
                (sint (Timestamp newStats) - sint (Timestamp cachedStats))\<bar>
             < 1 + exactRate (uint newValue - uint cachedValue)
                     (sint (Timestamp newStats) - sint (Timestamp cachedStats)) / 2 ^ 50"
proof -
  define delta where "delta = newValue - cachedValue"
  define nanoSeconds where "nanoSeconds = Timestamp newStats - Timestamp cachedStats"
  have le: "cachedValue \<le> newValue" using increase by simp
  have d: "uint delta = uint newValue - uint cachedValue"
    unfolding delta_def using le by (simp add: uint_sub_if' word_le_def)
  have dpos: "0 < uint delta"
    using increase d by (simp add: word_less_def)
  have n: "sint nanoSeconds = sint (Timestamp newStats) - sint (Timestamp cachedStats)"
    unfolding nanoSeconds_def using interval
    by (simp add: sint_word_ariths signed_take_bit_int_eq_self)
  have npos: "0 < sint nanoSeconds" using interval n by simp
  have tol: "\<bar>of_int (uint (usageNanoCoresOf oor delta nanoSeconds)) - exactRate (uint delta) (sint nanoSeconds)\<bar>
           < 1 + exactRate (uint delta) (sint nanoSeconds) / 2 ^ 50"
    using dpos npos range by (intro usageNanoCoresOf_tolerance) (simp_all only: d n)
  have "getAndUpdateContainerUsageNanoCores oor cache (Some s) =
          Inr (AList.update (ca_Id a)
                 (Some \<lparr>stats = Some newStats, usageNanoCores = Some (usageNanoCoresOf oor delta nanoSeconds)\<rparr>)
                 cache,
               Some (usageNanoCoresOf oor delta nanoSeconds))"
    using assms(1-6) increase npos
    by (simp add: getAndUpdateContainerUsageNanoCores_def Let_def delta_def nanoSeconds_def)
  then show ?thesis
    using tol unfolding d n by blast
qed

theorem rate_within_float64_tolerance_witness:
  "getAndUpdateContainerUsageNanoCores (\<lambda>f. 0) [(''c'', cachedOf 1000000100 7 None)]
     (Some (sampleOf ''c'' 4000000100 1000000007)) =
   Inr ([(''c'', cachedOf 4000000100 1000000007 (Some 333333333))], Some 333333333) \<and>
   exactRate (1000000007 - 7) (4000000100 - 1000000100) = 1000000000 / 3"
proof -
  have e: "exactRate 1000000000 3000000000 = 1000000000 / 3"
    by (simp add: exactRate_def)
  have "\<exists>usage.
           getAndUpdateContainerUsageNanoCores (\<lambda>f. 0) [(''c'', cachedOf 1000000100 7 None)]
             (Some (sampleOf ''c'' 4000000100 1000000007)) =
             Inr (AList.update ''c''
                    (Some \<lparr>stats = Some \<lparr>Timestamp = 4000000100, UsageCoreNanoSeconds = Some 1000000007\<rparr>,
                           usageNanoCores = Some usage\<rparr>)
                    [(''c'', cachedOf 1000000100 7 None)],
                  Some usage) \<and>
           \<bar>of_int (uint usage) - exactRate 1000000000 3000000000\<bar>
             < 1 + exactRate 1000000000 3000000000 / 2 ^ 50"
    using rate_within_float64_tolerance [of "sampleOf ''c'' 4000000100 1000000007"
        "\<lparr>ca_Id = ''c'', ca_Metadata = Some \<lparr>cm_Name = ''c''\<rparr>\<rparr>"
        "\<lparr>Timestamp = 4000000100, UsageCoreNanoSeconds = Some 1000000007\<rparr>" 1000000007
        "[(''c'', cachedOf 1000000100 7 None)]"
        "\<lparr>stats = Some \<lparr>Timestamp = 1000000100, UsageCoreNanoSeconds = Some 7\<rparr>, usageNanoCores = None\<rparr>"
        "\<lparr>Timestamp = 1000000100, UsageCoreNanoSeconds = Some 7\<rparr>" 7 "\<lambda>f. 0"]
    by (simp add: sampleOf_def cachedOf_def e)
  moreover have "getAndUpdateContainerUsageNanoCores (\<lambda>f. 0) [(''c'', cachedOf 1000000100 7 None)]
     (Some (sampleOf ''c'' 4000000100 1000000007)) =
   Inr ([(''c'', cachedOf 4000000100 1000000007 (Some 333333333))], Some 333333333)"
    by code_simp
  ultimately show ?thesis
    using e by simp
qed

text \<open>
  The claim as the specification states it fails: float64 has 53 significant bits, so a
  counter difference of \<open>2\<^sup>6\<^sup>3 + 1000\<close> nanoseconds is converted to \<open>2\<^sup>6\<^sup>3\<close>, and over an
  interval of one second the returned rate is \<open>2\<^sup>6\<^sup>3\<close>, 1000 nanocores away from the exact
  rate \<open>2\<^sup>6\<^sup>3 + 1000\<close>.
\<close>

theorem rate_beyond_rounding_counterexample:
  "getAndUpdateContainerUsageNanoCores (\<lambda>f. 0) [(''c'', cachedOf 0 0 None)]
     (Some (sampleOf ''c'' 1000000000 9223372036854776808)) =
   Inr ([(''c'', cachedOf 1000000000 9223372036854776808 (Some 9223372036854775808))],
        Some 9223372036854775808) \<and>
   exactRate (9223372036854776808 - 0) (1000000000 - 0) - of_int (uint (9223372036854775808 :: uint64)) = 1000"
  by code_simp

subsection \<open>The eviction sweep\<close>

lemma time_Since_outdated:
  "time_Since now (time_Unix0 t) > defaultCachePeriod \<longleftrightarrow> \<not> now - sint t \<le> 600000000000"
  by (auto simp: time_Since_def time_Sub_def time_Unix0_def defaultCachePeriod_def
      maxDuration_def minDuration_def Let_def)

lemma cleanup_Inr:
  "cleanupOutdatedCaches now cache = Inr cache' \<Longrightarrow>
     cache' = filter (\<lambda>(k, v). retained now v) cache"
proof (induction cache arbitrary: cache')
  case Nil
  then show ?case by simp
next
  case (Cons e cache)
  obtain k v where e: "e = (k, v)" by (cases e)
  show ?case
    using Cons.prems Cons.IH unfolding e
    by (auto simp: retained_def time_Since_outdated split: option.splits sum.splits if_splits)
qed

lemma cleanup_stats_wf:
  "stats_wf cache \<Longrightarrow> \<exists>cache'. cleanupOutdatedCaches now cache = Inr cache'"
proof (induction cache)
  case Nil
  show ?case by simp
next
  case (Cons e cache)
  obtain k v where e: "e = (k, v)" by (cases e)
  show ?case
    using Cons unfolding e
    by (auto simp: stats_wf_def record_wf_def split: option.splits)
qed

lemma map_of_filter_distinct:
  "distinct (map fst al) \<Longrightarrow>
     map_of (filter (\<lambda>(k, v). P v) al) k =
       (case map_of al k of None \<Rightarrow> None | Some v \<Rightarrow> if P v then Some v else None)"
proof (induction al)
  case Nil
  show ?case by simp
next
  case (Cons e al)
  obtain k' v' where e: "e = (k', v')" by (cases e)
  have "k' \<notin> fst ` set al" using Cons.prems e by simp
  then have "map_of al k' = None" by (simp add: map_of_eq_None_iff)
  then show ?case
    using Cons e by (auto split: option.splits)
qed

text \<open>
  Claim C7, as amended. On a cache in which every record that is there holds a sample, the
  sweep removes every entry whose record is \<^verbatim>\<open>nil\<close> and every entry whose sample is more
  than ten minutes older than \<open>now\<close>, and leaves every other entry as it was: the result is
  the list of the retained entries, and (one entry per key) each key maps to what it mapped
  to before if that is retained, and to nothing else.
\<close>

theorem cleanupOutdatedCaches_sweep:
  assumes "stats_wf cache"
  shows "\<exists>cache'. cleanupOutdatedCaches now cache = Inr cache' \<and>
           cache' = filter (\<lambda>(k, v). retained now v) cache \<and>
           (distinct (map fst cache) \<longrightarrow>
              (\<forall>k. map_of cache' k =
                 (case map_of cache k of
                    None \<Rightarrow> None
                  | Some v \<Rightarrow> if retained now v then Some v else None)))"
proof -
  obtain cache' where c: "cleanupOutdatedCaches now cache = Inr cache'"
    using cleanup_stats_wf [OF assms] by blast
  have f: "cache' = filter (\<lambda>(k, v). retained now v) cache"
    using c by (rule cleanup_Inr)
  show ?thesis
    using c f by (simp add: map_of_filter_distinct)
qed

theorem cleanupOutdatedCaches_sweep_witness:
  "cleanupOutdatedCaches 600000000101
     [(''old'', cachedOf 100 5 None), (''nil'', None), (''new'', cachedOf 101 5 None)] =
   Inr [(''new'', cachedOf 101 5 None)]"
  using cleanupOutdatedCaches_sweep [of
     "[(''old'', cachedOf 100 5 None), (''nil'', None), (''new'', cachedOf 101 5 None)]"
     600000000101]
  by (simp add: stats_wf_def record_wf_def retained_def cachedOf_def)

text \<open>
  The claim as the specification states it fails: an entry whose record is there and whose
  inner sample is \<^verbatim>\<open>nil\<close> is not removed; the sweep dereferences the sample and faults.
\<close>

theorem cleanupOutdatedCaches_nil_stats_counterexample:
  "cleanupOutdatedCaches 0 [(''c'', Some \<lparr>stats = None, usageNanoCores = None\<rparr>)] =
     Inl NilPointerDereference \<and>
   cleanupOutdatedCaches 0 [(''c'', Some \<lparr>stats = None, usageNanoCores = None\<rparr>)] \<noteq> Inr []"
  by simp

subsection \<open>The records of the update path\<close>

lemma set_update_subset: "set (AList.update k v al) \<subseteq> insert (k, v) (set al)"
  by (induction al) auto

lemma cache_wf_update:
  assumes "cache_wf cache" and "stats r \<noteq> None"
  shows "cache_wf (AList.update k (Some r) cache)"
  using assms set_update_subset [of k "Some r" cache]
  by (auto simp: cache_wf_def list_all_iff record_wf_def)

lemma getAndUpdate_inserts:
  assumes "getAndUpdateContainerUsageNanoCores oor cache st = Inr (cache', usage)"
  shows "cache' = cache \<or>
         (\<exists>k newStats rate. cache' = AList.update k (Some \<lparr>stats = Some newStats, usageNanoCores = rate\<rparr>) cache)"
  using assms
  by (auto simp: getAndUpdateContainerUsageNanoCores_def Let_def split: option.splits if_splits)

lemma getAndUpdate_wf:
  assumes "cache_wf cache"
    and "getAndUpdateContainerUsageNanoCores oor cache st = Inr (cache', usage)"
  shows "cache_wf cache'"
  using getAndUpdate_inserts [OF assms(2)] assms(1)
  by (auto intro: cache_wf_update)

lemma cache_wf_filter: "cache_wf cache \<Longrightarrow> cache_wf (filter P cache)"
  by (simp add: cache_wf_def list_all_iff)

lemma cache_wf_stats_wf: "cache_wf cache \<Longrightarrow> stats_wf cache"
  by (auto simp: cache_wf_def stats_wf_def list_all_iff)

lemma cleanup_wf:
  "cache_wf cache \<Longrightarrow> cleanupOutdatedCaches now cache = Inr cache' \<Longrightarrow> cache_wf cache'"
  by (auto dest!: cleanup_Inr intro: cache_wf_filter)

lemma populated_wf: "populated oor cache \<Longrightarrow> cache_wf cache"
proof (induction rule: populated.induct)
  case created
  show ?case by (simp add: cache_wf_def)
next
  case (updated cache st cache' usage)
  then show ?case by (blast intro: getAndUpdate_wf)
next
  case (swept cache now cache')
  then show ?case by (blast intro: cleanup_wf)
qed

lemma cache_wf_lookup:
  "cache_wf cache \<Longrightarrow> map_of cache k = Some v \<Longrightarrow> \<exists>r s. v = Some r \<and> stats r = Some s"
  by (force simp: cache_wf_def list_all_iff record_wf_def dest!: map_of_SomeD split: option.splits)

lemma getAndUpdate_no_fault:
  assumes "cache_wf cache"
  shows "\<exists>cache' usage. getAndUpdateContainerUsageNanoCores oor cache st = Inr (cache', usage)"
proof (cases "\<exists>s a. st = Some s \<and> Attributes s = Some a \<and> map_of cache (ca_Id a) \<noteq> None")
  case True
  then obtain s a v where st: "st = Some s" "Attributes s = Some a"
    and v: "map_of cache (ca_Id a) = Some v" by auto
  obtain r cs where "v = Some r" "stats r = Some cs"
    using cache_wf_lookup [OF assms v] by blast
  then show ?thesis
    using st v
    by (simp add: getAndUpdateContainerUsageNanoCores_def Let_def split: option.splits)
next
  case False
  then show ?thesis
    by (auto simp: getAndUpdateContainerUsageNanoCores_def Let_def split: option.splits)
qed

lemma getContainerUsageNanoCores_no_fault:
  assumes "cache_wf cache"
  shows "\<exists>usage. getContainerUsageNanoCores cache st = Inr usage"
proof (cases "\<exists>s a. st = Some s \<and> Attributes s = Some a \<and> map_of cache (ca_Id a) \<noteq> None")
  case True
  then obtain s a v where st: "st = Some s" "Attributes s = Some a"
    and v: "map_of cache (ca_Id a) = Some v" by auto
  obtain r cs where "v = Some r" "stats r = Some cs"
    using cache_wf_lookup [OF assms v] by blast
  then show ?thesis
    using st v by (simp add: getContainerUsageNanoCores_def)
next
  case False
  then show ?thesis
    by (auto simp: getContainerUsageNanoCores_def split: option.splits)
qed

text \<open>
  Claim C10. Whatever the cache, an entry that \<^verbatim>\<open>getAndUpdateContainerUsageNanoCores\<close>
  adds or changes is a record with a sample. So in every cache that starts empty and is
  written only by the update path and the sweep, every entry is a record with a sample, and
  on such a cache neither the update path, nor the read path, nor the sweep dereferences
  \<^verbatim>\<open>nil\<close>: each returns.
\<close>

theorem update_path_keeps_records_well_formed:
  "(\<forall>cache st cache' usage k v.
      getAndUpdateContainerUsageNanoCores oor cache st = Inr (cache', usage) \<and>
      (k, v) \<in> set cache' \<and> (k, v) \<notin> set cache \<longrightarrow>
        (\<exists>r s. v = Some r \<and> stats r = Some s)) \<and>
   (\<forall>cache. populated oor cache \<longrightarrow>
      cache_wf cache \<and>
      (\<forall>st. \<exists>cache' usage. getAndUpdateContainerUsageNanoCores oor cache st = Inr (cache', usage)) \<and>
      (\<forall>st. \<exists>usage. getContainerUsageNanoCores cache st = Inr usage) \<and>
      (\<forall>now. \<exists>cache'. cleanupOutdatedCaches now cache = Inr cache'))"
proof (intro conjI allI impI)
  fix cache st cache' usage k v
  assume a: "getAndUpdateContainerUsageNanoCores oor cache st = Inr (cache', usage) \<and>
      (k, v) \<in> set cache' \<and> (k, v) \<notin> set cache"
  have "set (AList.update k' v' cache) \<subseteq> insert (k', v') (set cache)" for k' v'
    by (rule set_update_subset)
  then show "\<exists>r s. v = Some r \<and> stats r = Some s"
    using a getAndUpdate_inserts [of oor cache st cache' usage] by fastforce
next
  fix cache assume "populated oor cache"
  then show "cache_wf cache" by (rule populated_wf)
next
  fix cache st assume "populated oor cache"
  then show "\<exists>cache' usage. getAndUpdateContainerUsageNanoCores oor cache st = Inr (cache', usage)"
    by (intro getAndUpdate_no_fault populated_wf)
next
  fix cache st assume "populated oor cache"
  then show "\<exists>usage. getContainerUsageNanoCores cache st = Inr usage"
    by (intro getContainerUsageNanoCores_no_fault populated_wf)
next
  fix cache now assume "populated oor cache"
  then show "\<exists>cache'. cleanupOutdatedCaches now cache = Inr cache'"
    by (intro cleanup_stats_wf cache_wf_stats_wf populated_wf)
qed


theorem update_path_keeps_records_well_formed_witness:
  "populated (\<lambda>f. 0) [(''c'', cachedOf 100 7 None)] \<and>
   cache_wf [(''c'', cachedOf 100 7 None)] \<and>
   getAndUpdateContainerUsageNanoCores (\<lambda>f. 0) [(''c'', cachedOf 100 7 None)]
     (Some (sampleOf ''c'' 90 7)) = Inr ([(''c'', cachedOf 100 7 None)], None) \<and>
   cleanupOutdatedCaches 101 [(''c'', cachedOf 100 7 None)] = Inr [(''c'', cachedOf 100 7 None)]"
proof -
  have run: "getAndUpdateContainerUsageNanoCores (\<lambda>f. 0) [] (Some (sampleOf ''c'' 100 7)) =
               Inr ([(''c'', cachedOf 100 7 None)], None)"
    by (simp add: getAndUpdateContainerUsageNanoCores_def sampleOf_def cachedOf_def)
  have p: "populated (\<lambda>f. 0) [(''c'', cachedOf 100 7 None)]"
    by (rule populated.updated [OF populated.created run])
  have "cache_wf [(''c'', cachedOf 100 7 None)] \<and>
        (\<exists>cache' usage. getAndUpdateContainerUsageNanoCores (\<lambda>f. 0) [(''c'', cachedOf 100 7 None)]
           (Some (sampleOf ''c'' 90 7)) = Inr (cache', usage)) \<and>
        (\<exists>cache'. cleanupOutdatedCaches 101 [(''c'', cachedOf 100 7 None)] = Inr cache')"
    using update_path_keeps_records_well_formed [of "\<lambda>f. 0"] p by blast
  then show ?thesis
    using p
    by (simp add: getAndUpdateContainerUsageNanoCores_def sampleOf_def cachedOf_def
        time_Since_outdated)
qed

section \<open>The snapshot passes\<close>

subsection \<open>The read-only pass and the cache\<close>

lemma makeCPUStats_read_only:
  "makeCPUStats oor now False cache st = Inr (cache', cpu) \<Longrightarrow> cache' = cache"
  by (auto simp: makeCPUStats_def split: option.splits sum.splits)

lemma makeContainerStats_read_only:
  assumes "makeContainerStats H U now False cache fsIDtoInfo st container infos = Inr (cache', f', cs)"
  shows "cache' = cache"
  using assms
  by (auto simp: makeContainerStats_def Let_def
      split: option.splits sum.splits prod.splits dest: makeCPUStats_read_only)

lemma listPodStats_body_read_only:
  assumes "listPodStats_body H U now False cm pm infos ca net (cache, f, m) st = Inr (cache', f', m')"
  shows "cache' = cache"
  using assms
  by (auto simp: listPodStats_body_def Let_def
      split: option.splits sum.splits dest: makeContainerStats_read_only)

lemma forEach_read_only:
  assumes "\<And>cache f m st cache' f' m'.
             body (cache, f, m) st = Inr (cache', f', m') \<Longrightarrow> cache' = cache"
    and "forEach body (cache, f, m) xs = Inr (cache', f', m')"
  shows "cache' = cache"
  using assms(2)
proof (induction xs arbitrary: f m)
  case Nil
  then show ?case by simp
next
  case (Cons x xs)
  from Cons.prems obtain s1 where s1: "body (cache, f, m) x = Inr s1"
    and rest: "forEach body s1 xs = Inr (cache', f', m')"
    by (auto split: sum.splits)
  obtain c1 f1 m1 where t: "s1 = (c1, f1, m1)" by (cases s1)
  have "c1 = cache" using assms(1) s1 t by blast
  then show ?case using Cons.IH rest t by blast
qed

lemma listPodStats_unfold:
  assumes "RootFsInfo U = Inr rootFsInfo" and "ListContainers U = Inr containers"
    and "ListPodSandbox U = Inr items" and "ListContainerStats U = Inr cstsResp"
    and "getCadvisorContainerInfo U = Inr allInfos"
    and "listContainerNetworkStats U = Inr containerNetworkStats"
  shows "listPodStats H U now upd cache =
     (case forEach
             (listPodStats_body H U now upd
                (containerMapOf (removeTerminatedContainers H containers))
                (podSandboxMapOf (removeTerminatedPods items))
                allInfos (getCRICadvisorStats H allInfos) containerNetworkStats)
             (cache, [], []) cstsResp of
        Inl p \<Rightarrow> Inl p
      | Inr (cache1, fsIDtoInfo, sandboxIDToPodStats) \<Rightarrow>
     (case cleanupOutdatedCaches now cache1 of
        Inl p \<Rightarrow> Inl p
      | Inr cache2 \<Rightarrow> Inr (cache2, Some (map snd sandboxIDToPodStats), None)))"
  using assms by (simp add: listPodStats_def)

lemma listPodStats_fetch_failure:
  assumes "listPodStats_fetchErrors U \<noteq> []"
  shows "\<exists>e. listPodStats H U now upd cache = Inr (cache, None, Some e) \<and>
              wraps e (hd (listPodStats_fetchErrors U))"
  using assms
  by (auto simp: listPodStats_def listPodStats_fetchErrors_def failed_def wraps_def
      split: sum.splits)

lemma listPodStats_no_fetch_failure:
  assumes "listPodStats_fetchErrors U = []"
  shows "\<exists>rootFsInfo containers items cstsResp allInfos containerNetworkStats.
           RootFsInfo U = Inr rootFsInfo \<and> ListContainers U = Inr containers \<and>
           ListPodSandbox U = Inr items \<and> ListContainerStats U = Inr cstsResp \<and>
           getCadvisorContainerInfo U = Inr allInfos \<and>
           listContainerNetworkStats U = Inr containerNetworkStats"
  using assms
  by (auto simp: listPodStats_fetchErrors_def failed_def split: sum.splits)

lemma listPodStats_success_shape:
  assumes "listPodStats_fetchErrors U = []"
    and "listPodStats H U now upd cache = Inr (cache', r, e)"
  shows "e = None \<and> r \<noteq> None"
proof -
  obtain rootFsInfo containers items cstsResp allInfos containerNetworkStats where
    "RootFsInfo U = Inr rootFsInfo" "ListContainers U = Inr containers"
    "ListPodSandbox U = Inr items" "ListContainerStats U = Inr cstsResp"
    "getCadvisorContainerInfo U = Inr allInfos"
    "listContainerNetworkStats U = Inr containerNetworkStats"
    using listPodStats_no_fetch_failure [OF assms(1)] by blast
  then show ?thesis
    using assms(2) by (auto simp: listPodStats_unfold split: sum.splits prod.splits)
qed

lemma ListPodCPUAndMemoryStats_fetch_failure:
  assumes "ListPodCPUAndMemoryStats_fetchErrors U \<noteq> []"
  shows "\<exists>e. ListPodCPUAndMemoryStats H U now cache = Inr (cache, None, Some e) \<and>
              wraps e (hd (ListPodCPUAndMemoryStats_fetchErrors U))"
  using assms
  by (auto simp: ListPodCPUAndMemoryStats_def ListPodCPUAndMemoryStats_fetchErrors_def failed_def
      wraps_def split: sum.splits)

lemma ListPodCPUAndMemoryStats_success_shape:
  assumes "ListPodCPUAndMemoryStats_fetchErrors U = []"
    and "ListPodCPUAndMemoryStats H U now cache = Inr (cache', r, e)"
  shows "e = None \<and> r \<noteq> None"
  using assms
  by (auto simp: ListPodCPUAndMemoryStats_def ListPodCPUAndMemoryStats_fetchErrors_def failed_def
      split: sum.splits prod.splits)

text \<open>
  Claim C8. When a fetch of a pass fails (for \<^verbatim>\<open>listPodStats\<close>: the root filesystem
  info, the containers, the pod sandboxes, the container stats, the cAdvisor container infos
  or the container network stats; for \<^verbatim>\<open>ListPodCPUAndMemoryStats\<close>: the containers, the
  pod sandboxes, the container stats or the cAdvisor container infos), the pass returns the
  \<^verbatim>\<open>nil\<close> slice with one error, which wraps the error of the first failed fetch, and
  leaves the cache as it was. No pass returns a slice together with an error.
\<close>

theorem fetch_failure_aborts_pass:
  "(listPodStats_fetchErrors U \<noteq> [] \<longrightarrow>
      (\<exists>e. listPodStats H U now upd cache = Inr (cache, None, Some e) \<and>
            wraps e (hd (listPodStats_fetchErrors U)))) \<and>
   (ListPodCPUAndMemoryStats_fetchErrors U \<noteq> [] \<longrightarrow>
      (\<exists>e. ListPodCPUAndMemoryStats H U now cache = Inr (cache, None, Some e) \<and>
            wraps e (hd (ListPodCPUAndMemoryStats_fetchErrors U)))) \<and>
   (\<forall>cache' r e. listPodStats H U now upd cache = Inr (cache', r, Some e) \<longrightarrow> r = None) \<and>
   (\<forall>cache' r e. ListPodCPUAndMemoryStats H U now cache = Inr (cache', r, Some e) \<longrightarrow> r = None)"
proof (intro conjI allI impI)
  assume "listPodStats_fetchErrors U \<noteq> []"
  then show "\<exists>e. listPodStats H U now upd cache = Inr (cache, None, Some e) \<and>
            wraps e (hd (listPodStats_fetchErrors U))"
    by (rule listPodStats_fetch_failure)
next
  assume "ListPodCPUAndMemoryStats_fetchErrors U \<noteq> []"
  then show "\<exists>e. ListPodCPUAndMemoryStats H U now cache = Inr (cache, None, Some e) \<and>
            wraps e (hd (ListPodCPUAndMemoryStats_fetchErrors U))"
    by (rule ListPodCPUAndMemoryStats_fetch_failure)
next
  fix cache' r e
  assume a: "listPodStats H U now upd cache = Inr (cache', r, Some e)"
  show "r = None"
  proof (cases "listPodStats_fetchErrors U = []")
    case True
    then show ?thesis using listPodStats_success_shape [OF True a] by simp
  next
    case False
    then show ?thesis using listPodStats_fetch_failure [OF False, of H now upd cache] a by auto
  qed
next
  fix cache' r e
  assume a: "ListPodCPUAndMemoryStats H U now cache = Inr (cache', r, Some e)"
  show "r = None"
  proof (cases "ListPodCPUAndMemoryStats_fetchErrors U = []")
    case True
    then show ?thesis using ListPodCPUAndMemoryStats_success_shape [OF True a] by simp
  next
    case False
    then show ?thesis
      using ListPodCPUAndMemoryStats_fetch_failure [OF False, of H now cache] a by auto
  qed
qed

theorem fetch_failure_aborts_pass_witness:
  "listPodStats exampleHelpers (exampleUpstream\<lparr>ListContainerStats := Inl (Err ''unavailable'')\<rparr>)
     600000000101 True exampleCache =
     Inr (exampleCache, None, Some (Errorf ''failed to list all container stats: %v'' (Err ''unavailable''))) \<and>
   ListPodCPUAndMemoryStats exampleHelpers (exampleUpstream\<lparr>ListContainerStats := Inl (Err ''unavailable'')\<rparr>)
     600000000101 exampleCache =
     Inr (exampleCache, None, Some (Errorf ''failed to list all container stats: %v'' (Err ''unavailable'')))"
  using fetch_failure_aborts_pass [of "exampleUpstream\<lparr>ListContainerStats := Inl (Err ''unavailable'')\<rparr>"
      exampleHelpers 600000000101 True exampleCache]
  by (simp add: listPodStats_def ListPodCPUAndMemoryStats_def exampleUpstream_def)

text \<open>
  Claim C1, as amended. \<^verbatim>\<open>ListPodStats\<close> adds no entry to the rate cache and updates
  none; it still runs the eviction sweep at the end of the pass. When the call returns, the
  cache is the old cache without the entries the sweep evicts (a \<^verbatim>\<open>nil\<close> record, or a
  sample more than ten minutes older than \<open>now\<close>) if every fetch succeeded, and the old cache
  itself if a fetch failed; so every key maps to what it mapped to before or to nothing.
\<close>

theorem ListPodStats_only_evicts:
  assumes "ListPodStats H U now cache = Inr (cache', r, e)"
  shows "cache' = (if e = None then filter (\<lambda>(k, v). retained now v) cache else cache) \<and>
         (e = None \<longleftrightarrow> listPodStats_fetchErrors U = []) \<and>
         (distinct (map fst cache) \<longrightarrow>
            (\<forall>k. map_of cache' k = None \<or> map_of cache' k = map_of cache k))"
proof -
  have a: "listPodStats H U now False cache = Inr (cache', r, e)"
    using assms by (simp add: ListPodStats_def)
  have main: "cache' = (if e = None then filter (\<lambda>(k, v). retained now v) cache else cache) \<and>
         (e = None \<longleftrightarrow> listPodStats_fetchErrors U = [])"
  proof (cases "listPodStats_fetchErrors U = []")
    case False
    then show ?thesis
      using listPodStats_fetch_failure [OF False, of H now False cache] a by auto
  next
    case True
    obtain rootFsInfo containers items cstsResp allInfos containerNetworkStats where f:
      "RootFsInfo U = Inr rootFsInfo" "ListContainers U = Inr containers"
      "ListPodSandbox U = Inr items" "ListContainerStats U = Inr cstsResp"
      "getCadvisorContainerInfo U = Inr allInfos"
      "listContainerNetworkStats U = Inr containerNetworkStats"
      using listPodStats_no_fetch_failure [OF True] by blast
    from a obtain c1 f1 m1 where
      loop: "forEach
             (listPodStats_body H U now False
                (containerMapOf (removeTerminatedContainers H containers))
                (podSandboxMapOf (removeTerminatedPods items))
                allInfos (getCRICadvisorStats H allInfos) containerNetworkStats)
             (cache, [], []) cstsResp = Inr (c1, f1, m1)"
      and sweep: "cleanupOutdatedCaches now c1 = Inr cache'" and e: "e = None"
      by (auto simp: listPodStats_unfold [OF f] split: sum.splits prod.splits)
    have "c1 = cache"
      using loop by (rule forEach_read_only [rotated]) (rule listPodStats_body_read_only)
    then show ?thesis
      using cleanup_Inr [OF sweep] e True by simp
  qed
  moreover have "distinct (map fst cache) \<longrightarrow>
            (\<forall>k. map_of cache' k = None \<or> map_of cache' k = map_of cache k)"
    using main by (auto simp: map_of_filter_distinct split: option.splits)
  ultimately show ?thesis by blast
qed


theorem ListPodStats_only_evicts_witness:
  "fst (projr (ListPodStats exampleHelpers exampleUpstream 600000000101 exampleCache)) =
     [(''c1'', cachedOf 1000000100 7 (Some 42))]"
proof -
  have "\<not> isl (ListPodStats exampleHelpers exampleUpstream 600000000101 exampleCache)"
    by code_simp
  then obtain cache' r e where
    run: "ListPodStats exampleHelpers exampleUpstream 600000000101 exampleCache = Inr (cache', r, e)"
    by (cases "ListPodStats exampleHelpers exampleUpstream 600000000101 exampleCache") auto
  have "listPodStats_fetchErrors exampleUpstream = []"
    by (simp add: listPodStats_fetchErrors_def failed_def exampleUpstream_def)
  then have "cache' = filter (\<lambda>(k, v). retained 600000000101 v) exampleCache"
    using ListPodStats_only_evicts [OF run] by simp
  then show ?thesis
    using run by (simp add: exampleCache_def retained_def cachedOf_def)
qed

text \<open>
  The claim as the specification states it fails: the read-only pass removes the stale
  entry \<open>''gone''\<close>, so the cache after the call is not the cache before it.
\<close>

theorem ListPodStats_evicts_counterexample:
  "\<not> isl (ListPodStats exampleHelpers exampleUpstream 600000000101 exampleCache) \<and>
   map_of exampleCache ''gone'' = Some (cachedOf 100 5 None) \<and>
   map_of (fst (projr (ListPodStats exampleHelpers exampleUpstream 600000000101 exampleCache))) ''gone'' = None \<and>
   fst (projr (ListPodStats exampleHelpers exampleUpstream 600000000101 exampleCache)) \<noteq> exampleCache"
  by code_simp

subsection \<open>Records without a container or a sandbox\<close>

lemma listPodStats_body_skip:
  "unresolved cm pm st \<Longrightarrow> listPodStats_body H U now upd cm pm infos ca net state st = Inr state"
  by (cases state) (auto simp: unresolved_def listPodStats_body_def split: option.splits)

lemma ListPodCPUAndMemoryStats_body_skip:
  "unresolved cm pm st \<Longrightarrow> ListPodCPUAndMemoryStats_body H now cache cm pm infos ca m st = Inr m"
  by (auto simp: unresolved_def ListPodCPUAndMemoryStats_body_def split: option.splits)

lemma forEach_skip:
  assumes "\<And>s. body s x = Inr s"
  shows "forEach body s (pre @ x # post) = forEach body s (pre @ post)"
proof (induction pre arbitrary: s)
  case Nil
  show ?case by (simp add: assms)
next
  case (Cons y pre)
  show ?case by (simp add: Cons.IH split: sum.splits)
qed

text \<open>
  Claim C9. A stat record whose container id is not in the (deduplicated) container map, or
  whose container names a sandbox that is not in the sandbox map, is skipped: the body of
  the loop returns the state it was given (no \<^verbatim>\<open>ContainerStats\<close>, no \<^verbatim>\<open>PodStats\<close>, no
  change of the cache, no fault), and each pass returns exactly what it returns when the
  record is taken out of the list of the stat records; the record does not make it fail.
\<close>

theorem unresolved_record_is_skipped:
  assumes "ListContainers U = Inr containers" and "ListPodSandbox U = Inr items"
    and "ListContainerStats U = Inr (pre @ st # post)"
    and "unresolved (containerMapOf (removeTerminatedContainers H containers))
           (podSandboxMapOf (removeTerminatedPods items)) st"
  shows "(\<forall>infos ca net state.
            listPodStats_body H U now upd (containerMapOf (removeTerminatedContainers H containers))
              (podSandboxMapOf (removeTerminatedPods items)) infos ca net state st = Inr state) \<and>
         listPodStats H U now upd cache =
           listPodStats H (U\<lparr>ListContainerStats := Inr (pre @ post)\<rparr>) now upd cache \<and>
         ListPodCPUAndMemoryStats H U now cache =
           ListPodCPUAndMemoryStats H (U\<lparr>ListContainerStats := Inr (pre @ post)\<rparr>) now cache"
proof (intro conjI allI)
  fix infos ca net state
  show "listPodStats_body H U now upd (containerMapOf (removeTerminatedContainers H containers))
              (podSandboxMapOf (removeTerminatedPods items)) infos ca net state st = Inr state"
    using assms(4) by (rule listPodStats_body_skip)
next
  have fs_U: "getFsInfo (U\<lparr>ListContainerStats := x\<rparr>) = getFsInfo U" for x
    by (intro ext) (simp add: getFsInfo_def split: option.splits)
  have root_U: "makeRootfsStats (U\<lparr>ListContainerStats := x\<rparr>) = makeRootfsStats U" for x
    unfolding makeRootfsStats_def fs_U by (rule refl)
  have make_U: "makeContainerStats H (U\<lparr>ListContainerStats := x\<rparr>) = makeContainerStats H U" for x
    unfolding makeContainerStats_def root_U by (rule refl)
  have body_U: "listPodStats_body H (U\<lparr>ListContainerStats := x\<rparr>) = listPodStats_body H U" for x
    unfolding listPodStats_body_def make_U by (rule refl)
  have skip: "forEach (listPodStats_body H U now upd
                  (containerMapOf (removeTerminatedContainers H containers))
                  (podSandboxMapOf (removeTerminatedPods items)) infos ca net) s (pre @ st # post) =
              forEach (listPodStats_body H U now upd
                  (containerMapOf (removeTerminatedContainers H containers))
                  (podSandboxMapOf (removeTerminatedPods items)) infos ca net) s (pre @ post)"
    for infos ca net s
    by (rule forEach_skip) (rule listPodStats_body_skip [OF assms(4)])
  show "listPodStats H U now upd cache =
           listPodStats H (U\<lparr>ListContainerStats := Inr (pre @ post)\<rparr>) now upd cache"
    using assms(1-3)
    by (simp add: listPodStats_def body_U skip split: sum.splits)
next
  have skip: "forEach (ListPodCPUAndMemoryStats_body H now cache
                  (containerMapOf (removeTerminatedContainers H containers))
                  (podSandboxMapOf (removeTerminatedPods items)) infos ca) s (pre @ st # post) =
              forEach (ListPodCPUAndMemoryStats_body H now cache
                  (containerMapOf (removeTerminatedContainers H containers))
                  (podSandboxMapOf (removeTerminatedPods items)) infos ca) s (pre @ post)"
    for infos ca s
    by (rule forEach_skip) (rule ListPodCPUAndMemoryStats_body_skip [OF assms(4)])
  show "ListPodCPUAndMemoryStats H U now cache =
           ListPodCPUAndMemoryStats H (U\<lparr>ListContainerStats := Inr (pre @ post)\<rparr>) now cache"
    using assms(1-3)
    by (simp add: ListPodCPUAndMemoryStats_def skip split: sum.splits)
qed


theorem unresolved_record_is_skipped_witness:
  "listPodStats exampleHelpers exampleUpstream 600000000101 True exampleCache =
     listPodStats exampleHelpers
       (exampleUpstream\<lparr>ListContainerStats := Inr [sampleOf ''c1'' 2000000100 1000000007]\<rparr>)
       600000000101 True exampleCache \<and>
   map_option (map (\<lambda>ps. map cs_Name (Containers ps)))
     (fst (snd (projr (listPodStats exampleHelpers exampleUpstream 600000000101 True exampleCache)))) =
     Some [[''c1'']]"
proof -
  have u: "unresolved
             (containerMapOf (removeTerminatedContainers exampleHelpers
                [containerOf ''c1'' ''nginx'' CONTAINER_RUNNING 10]))
             (podSandboxMapOf (removeTerminatedPods [sandboxOf ''s1'' ''web'' SANDBOX_READY 5]))
             \<lparr>Attributes = Some \<lparr>ca_Id = ''ghost'', ca_Metadata = None\<rparr>,
              Cpu = None, Memory = None, WritableLayer = None\<rparr>"
    by code_simp
  have "listPodStats exampleHelpers exampleUpstream 600000000101 True exampleCache =
     listPodStats exampleHelpers
       (exampleUpstream\<lparr>ListContainerStats := Inr ([sampleOf ''c1'' 2000000100 1000000007] @ [])\<rparr>)
       600000000101 True exampleCache"
    using unresolved_record_is_skipped [where U = exampleUpstream and H = exampleHelpers
        and pre = "[sampleOf ''c1'' 2000000100 1000000007]" and post = "[]", OF _ _ _ u]
    by (simp add: exampleUpstream_def)
  moreover have "map_option (map (\<lambda>ps. map cs_Name (Containers ps)))
     (fst (snd (projr (listPodStats exampleHelpers exampleUpstream 600000000101 True exampleCache)))) =
     Some [[''c1'']]"
    by code_simp
  ultimately show ?thesis by simp
qed

subsection \<open>The passes and the records of the cache\<close>

text \<open>
  A pass writes to the rate cache only through the update path and the sweep: the cache it
  leaves is again one that started empty and was written only by these two.
\<close>

lemma forEach_invariant:
  assumes step: "\<And>s x s'. P s \<Longrightarrow> body s x = Inr s' \<Longrightarrow> P s'"
    and "P s" and "forEach body s xs = Inr s'"
  shows "P s'"
  using assms(2,3)
proof (induction xs arbitrary: s)
  case Nil
  then show ?case by simp
next
  case (Cons x xs)
  from Cons.prems(2) obtain s1 where s1: "body s x = Inr s1" and rest: "forEach body s1 xs = Inr s'"
    by (auto split: sum.splits)
  have "P s1" using step Cons.prems(1) s1 by blast
  then show ?case using Cons.IH rest by blast
qed

lemma makeCPUStats_populated:
  assumes "populated oor cache" and "makeCPUStats oor now upd cache st = Inr (cache', cpu)"
  shows "populated oor cache'"
  using assms
  by (auto simp: makeCPUStats_def split: option.splits sum.splits if_splits
      intro: populated.updated)

lemma makeContainerStats_populated:
  assumes "populated (float64_out_of_range H) cache"
    and "makeContainerStats H U now upd cache f st c infos = Inr (cache', f', cs)"
  shows "populated (float64_out_of_range H) cache'"
  using assms
  by (auto simp: makeContainerStats_def Let_def split: option.splits sum.splits prod.splits
      dest: makeCPUStats_populated)

lemma listPodStats_body_populated:
  assumes "populated (float64_out_of_range H) (fst s)"
    and "listPodStats_body H U now upd cm pm infos ca net s st = Inr s'"
  shows "populated (float64_out_of_range H) (fst s')"
proof -
  obtain cache f m where s: "s = (cache, f, m)" by (cases s)
  have "s' = s \<or> (\<exists>c f' cs. makeContainerStats H U now upd cache f st c infos = Inr (fst s', f', cs))"
    using assms(2) unfolding s
    by (auto simp: listPodStats_body_def Let_def split: option.splits sum.splits)
  then show ?thesis
    using assms(1) s makeContainerStats_populated by fastforce
qed

lemma listPodStats_populated:
  assumes "populated (float64_out_of_range H) cache"
    and "listPodStats H U now upd cache = Inr (cache', r, e)"
  shows "populated (float64_out_of_range H) cache'"
proof (cases "listPodStats_fetchErrors U = []")
  case False
  then show ?thesis
    using listPodStats_fetch_failure [OF False, of H now upd cache] assms by auto
next
  case True
  obtain rootFsInfo containers items cstsResp allInfos containerNetworkStats where f:
    "RootFsInfo U = Inr rootFsInfo" "ListContainers U = Inr containers"
    "ListPodSandbox U = Inr items" "ListContainerStats U = Inr cstsResp"
    "getCadvisorContainerInfo U = Inr allInfos"
    "listContainerNetworkStats U = Inr containerNetworkStats"
    using listPodStats_no_fetch_failure [OF True] by blast
  from assms(2) obtain s1 where
    loop: "forEach
           (listPodStats_body H U now upd
              (containerMapOf (removeTerminatedContainers H containers))
              (podSandboxMapOf (removeTerminatedPods items))
              allInfos (getCRICadvisorStats H allInfos) containerNetworkStats)
           (cache, [], []) cstsResp = Inr s1"
    and sweep: "cleanupOutdatedCaches now (fst s1) = Inr cache'"
    by (auto simp: listPodStats_unfold [OF f] split: sum.splits prod.splits)
  have "populated (float64_out_of_range H) (fst s1)"
    by (rule forEach_invariant [where P = "\<lambda>s. populated (float64_out_of_range H) (fst s)", OF _ _ loop])
       (auto intro: listPodStats_body_populated assms(1))
  then show ?thesis
    using sweep by (rule populated.swept)
qed

lemma ListPodCPUAndMemoryStats_populated:
  assumes "populated oor cache"
    and "ListPodCPUAndMemoryStats H U now cache = Inr (cache', r, e)"
  shows "populated oor cache'"
  using assms
  by (auto simp: ListPodCPUAndMemoryStats_def split: sum.splits intro: populated.swept)

end
